theory Spec2Isabelle
  imports Complex_Main "HOL-Library.Log_Nat"
begin

section \<open>JavaScript values and HTTP responses\<close>

text \<open>
  A number as the server holds it once the body is parsed: a finite double other than
  negative zero (given by the rational it denotes), negative zero, or an infinity. The JSON
  parser rounds a literal to the nearest double, so a negative literal too small in
  magnitude (\<^verbatim>\<open>-1e-400\<close>) arrives as negative zero and a literal too large
  (\<^verbatim>\<open>1e400\<close>) as an infinity.
\<close>

datatype js_number = Finite rat | NegZero | PosInfinity | NegInfinity

text \<open>\<^verbatim>\<open>x < 0\<close> on numbers: negative zero is not below zero.\<close>

fun below_zero :: "js_number \<Rightarrow> bool" where
  "below_zero (Finite r) = (r < 0)"
| "below_zero NegZero = False"
| "below_zero PosInfinity = False"
| "below_zero NegInfinity = True"

text \<open>JSON payloads and the values read from them.\<close>

datatype jsval =
    JUndefined
  | JNull
  | JBool bool
  | JNum js_number
  | JStr string
  | JArr "jsval list"
  | JObj "(string \<times> jsval) list"

text \<open>The truthiness test behind \<^verbatim>\<open>!x\<close>, \<^verbatim>\<open>x && y\<close> and \<^verbatim>\<open>x || y\<close>.\<close>

fun truthy :: "jsval \<Rightarrow> bool" where
  "truthy JUndefined = False"
| "truthy JNull = False"
| "truthy (JBool b) = b"
| "truthy (JNum (Finite r)) = (r \<noteq> 0)"
| "truthy (JNum NegZero) = False"
| "truthy (JNum PosInfinity) = True"
| "truthy (JNum NegInfinity) = True"
| "truthy (JStr s) = (s \<noteq> [])"
| "truthy (JArr xs) = True"
| "truthy (JObj fs) = True"

text \<open>\<^verbatim>\<open>typeof x === 'string'\<close>.\<close>

fun is_string :: "jsval \<Rightarrow> bool" where
  "is_string (JStr s) = True"
| "is_string v = False"

text \<open>The characters of a string value (only ever applied where \<open>is_string\<close> holds).\<close>

fun the_string :: "jsval \<Rightarrow> string" where
  "the_string (JStr s) = s"
| "the_string v = []"

text \<open>
  Reading a property \<^verbatim>\<open>o.k\<close> of a value that is neither \<^verbatim>\<open>null\<close> nor
  \<^verbatim>\<open>undefined\<close>: a missing property, and any property of a primitive, reads as
  \<^verbatim>\<open>undefined\<close>. Every use below is guarded by a truthiness test on the object.
\<close>

fun js_get :: "jsval \<Rightarrow> string \<Rightarrow> jsval" where
  "js_get (JObj fs) k = (case map_of fs k of Some v \<Rightarrow> v | None \<Rightarrow> JUndefined)"
| "js_get v k = JUndefined"

text \<open>Truthiness of an optional string (\<^verbatim>\<open>undefined\<close> or a string).\<close>

fun truthy_str :: "string option \<Rightarrow> bool" where
  "truthy_str None = False"
| "truthy_str (Some s) = (s \<noteq> [])"

text \<open>\<^verbatim>\<open>a || b\<close> on optional strings: the first operand when it is truthy, else the second.\<close>

definition js_or :: "string option \<Rightarrow> string option \<Rightarrow> string option" where
  "js_or a b = (if truthy_str a then a else b)"

text \<open>\<^verbatim>\<open>s.split(' ')\<close>: the pieces between single spaces, empty pieces included.\<close>

fun split_space :: "string \<Rightarrow> string list" where
  "split_space [] = [[]]"
| "split_space (c # cs) =
     (if c = CHR '' '' then [] # split_space cs
      else (case split_space cs of [] \<Rightarrow> [[c]] | p # ps \<Rightarrow> (c # p) # ps))"

record response =
  status :: nat
  body :: jsval

text \<open>\<^verbatim>\<open>res.status(st).json({ message: m })\<close>.\<close>

definition message_response :: "nat \<Rightarrow> string \<Rightarrow> response" where
  "message_response st m = \<lparr>status = st, body = JObj [(''message'', JStr m)]\<rparr>"

text \<open>A thrown error: its \<^verbatim>\<open>code\<close> property and its message.\<close>

record js_error =
  err_code :: jsval
  err_message :: string

text \<open>\<^verbatim>\<open>res.status(500).json({ message: m, error: error.message })\<close>.\<close>

definition error_response :: "string \<Rightarrow> js_error \<Rightarrow> response" where
  "error_response m e =
     \<lparr>status = 500, body = JObj [(''message'', JStr m), (''error'', JStr (err_message e))]\<rparr>"

section \<open>Authentication middleware\<close>

text \<open>The claims a session token carries, as \<^verbatim>\<open>jwt.sign\<close> receives them at login.\<close>

record claims =
  claim_id :: jsval
  claim_username :: string
  isAdmin :: bool

text \<open>
  What the middleware reads of a request: the \<^verbatim>\<open>token\<close> cookie and the
  \<^verbatim>\<open>Authorization\<close> header, each absent or a string.
\<close>

record credentials =
  cookie_token :: "string option"
  authorization :: "string option"

text \<open>
  \<^verbatim>\<open>authHeader && authHeader.split(' ')[1]\<close>: an absent or empty header stays as it is,
  otherwise the second piece of the header, \<^verbatim>\<open>undefined\<close> when there is none.
\<close>

definition headerToken :: "credentials \<Rightarrow> string option" where
  "headerToken rq =
     (case authorization rq of
        None \<Rightarrow> None
      | Some h \<Rightarrow>
          if h = [] then Some []
          else (case split_space h of _ # t # _ \<Rightarrow> Some t | _ \<Rightarrow> None))"

text \<open>\<^verbatim>\<open>const token = cookieToken || headerToken\<close>.\<close>

definition token :: "credentials \<Rightarrow> string option" where
  "token rq = js_or (cookie_token rq) (headerToken rq)"

definition expired_message :: string where
  "expired_message = ''Token expired. Please log in again.''"

definition invalid_message :: string where
  "invalid_message = ''Invalid token.''"

text \<open>
  \<^verbatim>\<open>authenticateToken\<close>. The verifier \<^verbatim>\<open>jwt.verify(token, secret, cb)\<close> is a
  parameter: it answers with the name of its error (\<^verbatim>\<open>err.name\<close>) or with the decoded
  claims. The result is the response sent, or the claims stored in \<^verbatim>\<open>req.user\<close> when
  \<^verbatim>\<open>next()\<close> is called.
\<close>

definition authenticateToken ::
  "(string \<Rightarrow> string + claims) \<Rightarrow> credentials \<Rightarrow> response + claims" where
  "authenticateToken jwt_verify rq =
     (case token rq of
        None \<Rightarrow> Inl (message_response 401 ''Access denied. No token provided.'')
      | Some t \<Rightarrow>
          if t = [] then Inl (message_response 401 ''Access denied. No token provided.'')
          else
            (case jwt_verify t of
               Inl err_name \<Rightarrow>
                 Inl (message_response 403
                   (if err_name = ''TokenExpiredError'' then expired_message else invalid_message))
             | Inr user \<Rightarrow> Inr user))"

section \<open>Server state, store and effects\<close>

text \<open>A row of the users table, as the data-access module returns it.\<close>

record user =
  u_id :: jsval
  u_username :: string
  u_full_name :: string
  u_email :: string
  u_password :: string
  u_pin :: "string option"
  u_status :: jsval
  u_is_admin :: bool
  u_avatar :: jsval
  u_balance :: jsval
  u_phone :: jsval
  u_created_at :: jsval
  u_last_login :: jsval

text \<open>
  The text fields of a signup or user-creation body (the empty string when a field is
  absent; the validators read an absent field as the empty string).
\<close>

record signup_body =
  full_name :: string
  username :: string
  email :: string
  password :: string

record login_body =
  login_username :: string
  login_password :: string

text \<open>
  The data-access module \<^verbatim>\<open>db\<close> is imported from \<^verbatim>\<open>./db.js\<close>, which is not among the
  sources, so its operations are parameters: each answers with the error it throws or with
  its result.
  \<^verbatim>\<open>getSettings\<close> and the operations whose result is passed on unread answer with a
  JSON value.
\<close>

record store =
  getSettings :: "js_error + jsval"
  createUser :: "signup_body \<Rightarrow> js_error + user"
  getUserById :: "string \<Rightarrow> js_error + user option"
  getUserByUsername :: "string \<Rightarrow> js_error + user option"
  updateUserLastLogin :: "jsval \<Rightarrow> js_error + unit"
  updateUserBalance :: "string \<Rightarrow> js_number option \<Rightarrow> js_error + jsval"
  getUserTransactions :: "string \<Rightarrow> js_error + jsval"
  updateUserAvatar :: "string \<Rightarrow> string \<Rightarrow> js_error + jsval"
  deleteUserAvatar :: "string \<Rightarrow> js_error + unit"

text \<open>
  The libraries a handler calls: the store, \<^verbatim>\<open>bcrypt.compare\<close>, \<^verbatim>\<open>jwt.sign\<close> and
  \<^verbatim>\<open>jwt.verify\<close> with the server secret, and the validator library's email test.
\<close>

record env =
  db :: store
  bcrypt_compare :: "string \<Rightarrow> string \<Rightarrow> bool"
  jwt_sign :: "claims \<Rightarrow> string"
  jwt_verify :: "string \<Rightarrow> string + claims"
  isEmail :: "string \<Rightarrow> bool"

text \<open>The calls a handler makes to the store, to the hash comparison and to the signer.\<close>

datatype call =
    GetSettings
  | CreateUser signup_body
  | GetUserById string
  | GetUserByUsername string
  | UpdateUserLastLogin jsval
  | UpdateUserBalance string "js_number option"
  | GetUserTransactions string
  | UpdateUserAvatar string string
  | DeleteUserAvatar string
  | BcryptCompare string string
  | JwtSign claims

text \<open>
  What handling one request leaves behind: the response, the \<^verbatim>\<open>loginAttempts\<close> map
  afterwards, the calls made in order, and the session cookie set (if any).
\<close>

record outcome =
  res :: response
  loginAttempts :: "string \<rightharpoonup> nat"
  calls :: "call list"
  cookie :: "string option"

definition respond :: "(string \<rightharpoonup> nat) \<Rightarrow> call list \<Rightarrow> response \<Rightarrow> outcome" where
  "respond la cs r = \<lparr>res = r, loginAttempts = la, calls = cs, cookie = None\<rparr>"

text \<open>\<^verbatim>\<open>setInterval(() => loginAttempts.clear(), 60 * 60 * 1000)\<close>: the hourly sweep.\<close>

definition sweep :: "(string \<rightharpoonup> nat) \<Rightarrow> (string \<rightharpoonup> nat)" where
  "sweep la = Map.empty"

text \<open>
  A route behind \<^verbatim>\<open>authenticateToken\<close>: the middleware answers itself, or the handler
  runs with \<^verbatim>\<open>req.user\<close>.
\<close>

definition authenticated ::
  "env \<Rightarrow> (string \<rightharpoonup> nat) \<Rightarrow> credentials \<Rightarrow> (claims \<Rightarrow> outcome) \<Rightarrow> outcome" where
  "authenticated e la rq handler =
     (case authenticateToken (jwt_verify e) rq of
        Inl r \<Rightarrow> respond la [] r
      | Inr u \<Rightarrow> handler u)"

section \<open>Field validation\<close>

text \<open>
  The validator chains of the routes. \<^verbatim>\<open>trim\<close> strips white space at both ends,
  \<^verbatim>\<open>notEmpty\<close> and \<^verbatim>\<open>isLength\<close> read the string. An entry of
  \<^verbatim>\<open>errors.array()\<close> is abbreviated to its path and message.
\<close>

text \<open>
  The characters the pattern \<^verbatim>\<open>\s\<close> matches. A character of a modelled string is a code
  unit below 256; among those the white space is the tab, the line feed, the vertical tab,
  the form feed, the carriage return, the space and the no-break space. (Strings with code
  units from 256 on, among them the other Unicode spaces, are outside the model.)
\<close>

definition is_space :: "char \<Rightarrow> bool" where
  "is_space c =
     (c \<in> set [CHR '' '', CHR 0x09, CHR 0x0A, CHR 0x0B, CHR 0x0C, CHR 0x0D, CHR 0xA0])"

definition trim :: "string \<Rightarrow> string" where
  "trim s = rev (dropWhile is_space (rev (dropWhile is_space s)))"

definition notEmpty :: "string \<Rightarrow> bool" where
  "notEmpty s = (s \<noteq> [])"

definition isLength_min :: "nat \<Rightarrow> string \<Rightarrow> bool" where
  "isLength_min n s = (n \<le> length s)"

text \<open>
  \<^verbatim>\<open>isFloat({ min: 0 })\<close> on the balance of a parsed body, which is absent or a number.
  The validator reads \<^verbatim>\<open>String(value)\<close>: an absent field reads as the empty string,
  which is rejected; a finite double prints as a decimal that the validator's pattern
  accepts and that parses back to the same double, which is then compared with the minimum;
  negative zero prints as \<^verbatim>\<open>0\<close> and is accepted; an infinity prints as a word the pattern
  rejects.
\<close>

fun isFloat_min0 :: "js_number option \<Rightarrow> bool" where
  "isFloat_min0 None = False"
| "isFloat_min0 (Some (Finite r)) = (0 \<le> r)"
| "isFloat_min0 (Some NegZero) = True"
| "isFloat_min0 (Some PosInfinity) = False"
| "isFloat_min0 (Some NegInfinity) = False"

definition check :: "bool \<Rightarrow> string \<Rightarrow> string \<Rightarrow> jsval list" where
  "check ok path m = (if ok then [] else [JObj [(''path'', JStr path), (''msg'', JStr m)]])"

definition validation_failed :: "jsval list \<Rightarrow> response" where
  "validation_failed errors =
     \<lparr>status = 400,
      body = JObj [(''message'', JStr ''Validation failed''), (''errors'', JArr errors)]\<rparr>"

text \<open>The chain shared by signup and user creation; the sanitised body comes first.\<close>

definition signup_chain :: "(string \<Rightarrow> bool) \<Rightarrow> signup_body \<Rightarrow> signup_body \<times> jsval list" where
  "signup_chain is_email b =
     (let b' = b\<lparr>full_name := trim (full_name b), username := trim (username b)\<rparr>
      in (b',
          check (notEmpty (full_name b')) ''full_name'' ''Full name is required'' @
          check (notEmpty (username b')) ''username'' ''Username is required'' @
          check (is_email (email b')) ''email'' ''Valid email is required'' @
          check (isLength_min 6 (password b')) ''password''
            ''Password must be at least 6 characters''))"

definition login_chain :: "login_body \<Rightarrow> login_body \<times> jsval list" where
  "login_chain b =
     (let b' = b\<lparr>login_username := trim (login_username b)\<rparr>
      in (b',
          check (notEmpty (login_username b')) ''username'' ''Username is required'' @
          check (notEmpty (login_password b')) ''password'' ''Password is required''))"

definition balance_chain :: "js_number option \<Rightarrow> jsval list" where
  "balance_chain b = check (isFloat_min0 b) ''balance'' ''Balance must be a positive number''"

section \<open>Signup and user creation\<close>

text \<open>\<^verbatim>\<open>a || b\<close> on values.\<close>

definition js_or_val :: "jsval \<Rightarrow> jsval \<Rightarrow> jsval" where
  "js_or_val a b = (if truthy a then a else b)"

text \<open>The user object both creation routes answer with.\<close>

definition created_user :: "user \<Rightarrow> jsval" where
  "created_user u =
     JObj [(''id'', u_id u), (''username'', JStr (u_username u)),
           (''fullName'', JStr (u_full_name u)), (''email'', JStr (u_email u)),
           (''isAdmin'', JBool (u_is_admin u)), (''status'', u_status u),
           (''avatar'', js_or_val (u_avatar u) JNull), (''created_at'', u_created_at u),
           (''balance'', js_or_val (u_balance u) (JNum (Finite 0)))]"

text \<open>The \<^verbatim>\<open>catch\<close> block of both creation routes.\<close>

definition create_catch :: "js_error \<Rightarrow> response" where
  "create_catch err =
     (if err_code err = JStr ''23505''
      then message_response 400 ''Username or email already exists''
      else error_response ''Server error creating user'' err)"

text \<open>\<^verbatim>\<open>POST /api/signup\<close>.\<close>

definition signup :: "env \<Rightarrow> (string \<rightharpoonup> nat) \<Rightarrow> signup_body \<Rightarrow> outcome" where
  "signup e la b0 =
     (case signup_chain (isEmail e) b0 of
        (b, errors) \<Rightarrow>
          if errors \<noteq> [] then respond la [] (validation_failed errors)
          else
            (case getSettings (db e) of
               Inl err \<Rightarrow> respond la [GetSettings] (create_catch err)
             | Inr settings \<Rightarrow>
                 if truthy settings \<and> js_get settings ''allowNewUsers'' = JBool False
                 then respond la [GetSettings] (message_response 403 ''Registrations are disabled.'')
                 else
                   (case createUser (db e) b of
                      Inl err \<Rightarrow> respond la [GetSettings, CreateUser b] (create_catch err)
                    | Inr u \<Rightarrow>
                        respond la [GetSettings, CreateUser b]
                          \<lparr>status = 201, body = JObj [(''data'', created_user u)]\<rparr>)))"

text \<open>
  \<^verbatim>\<open>POST /api/users\<close>: the validators run first, then \<^verbatim>\<open>authenticateToken\<close>, then the
  handler, which tests the administrator flag before it reads the validation result.
\<close>

definition create_user_route ::
  "env \<Rightarrow> (string \<rightharpoonup> nat) \<Rightarrow> credentials \<Rightarrow> signup_body \<Rightarrow> outcome" where
  "create_user_route e la rq b0 =
     (case signup_chain (isEmail e) b0 of
        (b, errors) \<Rightarrow>
          authenticated e la rq (\<lambda>u.
            if \<not> isAdmin u then respond la [] (message_response 403 ''Admin access required'')
            else if errors \<noteq> [] then respond la [] (validation_failed errors)
            else
              (case createUser (db e) b of
                 Inl err \<Rightarrow> respond la [CreateUser b] (create_catch err)
               | Inr usr \<Rightarrow>
                   respond la [CreateUser b]
                     \<lparr>status = 201, body = JObj [(''user'', created_user usr)]\<rparr>)))"

section \<open>PIN verification\<close>

text \<open>\<^verbatim>\<open>POST /api/users/:userId/verify-pin\<close>; \<open>pin\<close> is \<^verbatim>\<open>req.body.pin\<close>.\<close>

definition verify_pin_route ::
  "env \<Rightarrow> (string \<rightharpoonup> nat) \<Rightarrow> credentials \<Rightarrow> string \<Rightarrow> jsval \<Rightarrow> outcome" where
  "verify_pin_route e la rq userId pin =
     authenticated e la rq (\<lambda>caller.
       if \<not> truthy pin \<or> \<not> is_string pin
       then respond la [] (message_response 400 ''PIN is required and must be a string.'')
       else
         (case getUserById (db e) userId of
            Inl err \<Rightarrow>
              respond la [GetUserById userId] (error_response ''Server error verifying PIN'' err)
          | Inr None \<Rightarrow>
              respond la [GetUserById userId] (message_response 404 ''User or PIN not found.'')
          | Inr (Some usr) \<Rightarrow>
              (case u_pin usr of
                 None \<Rightarrow>
                   respond la [GetUserById userId] (message_response 404 ''User or PIN not found.'')
               | Some h \<Rightarrow>
                   if h = []
                   then respond la [GetUserById userId]
                          (message_response 404 ''User or PIN not found.'')
                   else
                     respond la [GetUserById userId, BcryptCompare (the_string pin) h]
                       \<lparr>status = 200,
                        body = JObj [(''data'',
                          JObj [(''valid'', JBool (bcrypt_compare e (the_string pin) h))])]\<rparr>)))"

section \<open>Balance update\<close>

text \<open>\<^verbatim>\<open>PATCH /api/users/:id/balance\<close>; \<open>balance\<close> is \<^verbatim>\<open>req.body.balance\<close>.\<close>

definition update_balance_route ::
  "env \<Rightarrow> (string \<rightharpoonup> nat) \<Rightarrow> credentials \<Rightarrow> string \<Rightarrow> js_number option \<Rightarrow> outcome"
  where
  "update_balance_route e la rq ident balance =
     authenticated e la rq (\<lambda>caller.
       if \<not> isAdmin caller then respond la [] (message_response 403 ''Admin access required'')
       else if balance_chain balance \<noteq> []
       then respond la [] (validation_failed (balance_chain balance))
       else
         (case updateUserBalance (db e) ident balance of
            Inl err \<Rightarrow>
              respond la [UpdateUserBalance ident balance]
                (error_response ''Server error updating user balance'' err)
          | Inr row \<Rightarrow>
              respond la [UpdateUserBalance ident balance]
                \<lparr>status = 200, body = JObj [(''data'', row)]\<rparr>))"

section \<open>Login\<close>

text \<open>
  What the login handler reads of a request: \<^verbatim>\<open>req.ip\<close> and the body.
\<close>

record login_request =
  ip :: string
  login :: login_body

text \<open>\<^verbatim>\<open>loginAttempts.get(ip) || 0\<close>.\<close>

definition attempts_of :: "(string \<rightharpoonup> nat) \<Rightarrow> string \<Rightarrow> nat" where
  "attempts_of la a = (case la a of None \<Rightarrow> 0 | Some n \<Rightarrow> n)"

text \<open>The body of a successful login.\<close>

definition login_user :: "user \<Rightarrow> jsval" where
  "login_user u =
     JObj [(''user'',
       JObj [(''id'', u_id u), (''username'', JStr (u_username u)),
             (''fullName'', JStr (u_full_name u)), (''email'', JStr (u_email u)),
             (''isAdmin'', JBool (u_is_admin u)), (''avatar'', u_avatar u)])]"

text \<open>
  \<^verbatim>\<open>POST /api/login\<close>. The rate-limit test stands before the \<^verbatim>\<open>try\<close> block and
  before the validation result is read.
\<close>

definition login_route :: "env \<Rightarrow> (string \<rightharpoonup> nat) \<Rightarrow> login_request \<Rightarrow> outcome" where
  "login_route e la rq =
     (let attempts = attempts_of la (ip rq) in
      if attempts \<ge> 5
      then respond la [] (message_response 429 ''Too many login attempts. Please try again later.'')
      else
        (case login_chain (login rq) of
           (b, errors) \<Rightarrow>
             if errors \<noteq> [] then respond la [] (validation_failed errors)
             else
               (case getUserByUsername (db e) (login_username b) of
                  Inl err \<Rightarrow>
                    respond la [GetUserByUsername (login_username b)]
                      (error_response ''Server error during login'' err)
                | Inr None \<Rightarrow>
                    respond (la(ip rq \<mapsto> attempts + 1)) [GetUserByUsername (login_username b)]
                      (message_response 401 ''User not found. Please check your username.'')
                | Inr (Some u) \<Rightarrow>
                    if u_status u \<noteq> JStr ''Active''
                    then respond la [GetUserByUsername (login_username b)]
                           (message_response 403
                              ''Your account is inactive. Please contact support.'')
                    else if \<not> bcrypt_compare e (login_password b) (u_password u)
                    then respond (la(ip rq \<mapsto> attempts + 1))
                           [GetUserByUsername (login_username b),
                            BcryptCompare (login_password b) (u_password u)]
                           (message_response 401 ''Incorrect password. Please try again.'')
                    else
                      (case updateUserLastLogin (db e) (u_id u) of
                         Inl err \<Rightarrow>
                           respond (la(ip rq := None))
                             [GetUserByUsername (login_username b),
                              BcryptCompare (login_password b) (u_password u),
                              UpdateUserLastLogin (u_id u)]
                             (error_response ''Server error during login'' err)
                       | Inr _ \<Rightarrow>
                           \<lparr>res = \<lparr>status = 200, body = login_user u\<rparr>,
                            loginAttempts = la(ip rq := None),
                            calls =
                              [GetUserByUsername (login_username b),
                               BcryptCompare (login_password b) (u_password u),
                               UpdateUserLastLogin (u_id u),
                               JwtSign \<lparr>claim_id = u_id u, claim_username = u_username u,
                                        isAdmin = u_is_admin u\<rparr>],
                            cookie =
                              Some (jwt_sign e \<lparr>claim_id = u_id u, claim_username = u_username u,
                                               isAdmin = u_is_admin u\<rparr>)\<rparr>))))"

text \<open>A run of login requests, each with the libraries as they answer at that moment.\<close>

fun login_run ::
  "(string \<rightharpoonup> nat) \<Rightarrow> (env \<times> login_request) list \<Rightarrow> (string \<rightharpoonup> nat) \<times> response list" where
  "login_run la [] = (la, [])"
| "login_run la ((e, rq) # rest) =
     (let out = login_route e la rq;
          (la', rs) = login_run (loginAttempts out) rest
      in (la', res out # rs))"

section \<open>Self-or-administrator routes\<close>

text \<open>The user object of \<^verbatim>\<open>GET /api/users/:id\<close>.\<close>

definition profile_user :: "user \<Rightarrow> jsval" where
  "profile_user u =
     JObj [(''user'',
       JObj [(''id'', u_id u), (''username'', JStr (u_username u)),
             (''fullName'', JStr (u_full_name u)), (''email'', JStr (u_email u)),
             (''phone'', u_phone u), (''status'', u_status u), (''balance'', u_balance u),
             (''isAdmin'', JBool (u_is_admin u)), (''avatar'', u_avatar u),
             (''created_at'', u_created_at u), (''last_login'', u_last_login u)])]"

text \<open>
  \<^verbatim>\<open>GET /api/users/:id\<close>. The path parameter is a string;
  \<^verbatim>\<open>req.params.id !== req.user.id\<close> is strict inequality with the identifier of the claims.
\<close>

definition get_user_route ::
  "env \<Rightarrow> (string \<rightharpoonup> nat) \<Rightarrow> credentials \<Rightarrow> string \<Rightarrow> outcome" where
  "get_user_route e la rq ident =
     authenticated e la rq (\<lambda>caller.
       if \<not> isAdmin caller \<and> JStr ident \<noteq> claim_id caller
       then respond la [] (message_response 403 ''You can only access your own user details'')
       else
         (case getUserById (db e) ident of
            Inl err \<Rightarrow>
              respond la [GetUserById ident] (error_response ''Server error fetching user'' err)
          | Inr None \<Rightarrow> respond la [GetUserById ident] (message_response 404 ''User not found'')
          | Inr (Some u) \<Rightarrow>
              respond la [GetUserById ident] \<lparr>status = 200, body = profile_user u\<rparr>))"

text \<open>\<^verbatim>\<open>GET /api/users/:userId/transactions\<close>.\<close>

definition get_user_transactions_route ::
  "env \<Rightarrow> (string \<rightharpoonup> nat) \<Rightarrow> credentials \<Rightarrow> string \<Rightarrow> outcome" where
  "get_user_transactions_route e la rq userId =
     authenticated e la rq (\<lambda>caller.
       if \<not> isAdmin caller \<and> JStr userId \<noteq> claim_id caller
       then respond la [] (message_response 403 ''You can only access your own transactions'')
       else
         (case getUserTransactions (db e) userId of
            Inl err \<Rightarrow>
              respond la [GetUserTransactions userId]
                (error_response ''Server error fetching transactions'' err)
          | Inr rows \<Rightarrow>
              respond la [GetUserTransactions userId]
                \<lparr>status = 200, body = JObj [(''data'', rows)]\<rparr>))"

text \<open>
  What \<^verbatim>\<open>upload.single('avatar')\<close> leaves for the handler: no file, a stored file with
  its name, or an error (a file over the size limit or of another type), which goes to the
  error-handling middleware at the end of the chain.
\<close>

datatype upload = NoFile | StoredFile string | UploadError js_error

text \<open>
  \<^verbatim>\<open>PATCH /api/users/:id/avatar\<close>: \<^verbatim>\<open>authenticateToken\<close>, then the upload middleware,
  then the handler.
\<close>

definition update_avatar_route ::
  "env \<Rightarrow> (string \<rightharpoonup> nat) \<Rightarrow> credentials \<Rightarrow> string \<Rightarrow> upload \<Rightarrow> outcome" where
  "update_avatar_route e la rq ident up =
     authenticated e la rq (\<lambda>caller.
       (case up of
          UploadError err \<Rightarrow> respond la [] (error_response ''An unexpected error occurred'' err)
        | _ \<Rightarrow>
          if \<not> isAdmin caller \<and> JStr ident \<noteq> claim_id caller
          then respond la [] (message_response 403 ''You can only update your own avatar'')
          else
            (case up of
               StoredFile filename \<Rightarrow>
                 (case updateUserAvatar (db e) ident (''/Uploads/avatars/'' @ filename) of
                    Inl err \<Rightarrow>
                      respond la [UpdateUserAvatar ident (''/Uploads/avatars/'' @ filename)]
                        (error_response ''Server error updating avatar'' err)
                  | Inr row \<Rightarrow>
                      respond la [UpdateUserAvatar ident (''/Uploads/avatars/'' @ filename)]
                        \<lparr>status = 200,
                         body = JObj [(''data'',
                           JObj [(''message'', JStr ''Avatar updated successfully''),
                                 (''avatar'', JStr (''/Uploads/avatars/'' @ filename))])]\<rparr>)
             | _ \<Rightarrow> respond la [] (message_response 400 ''Avatar file is required''))))"

text \<open>\<^verbatim>\<open>DELETE /api/users/:id/avatar\<close>.\<close>

definition delete_avatar_route ::
  "env \<Rightarrow> (string \<rightharpoonup> nat) \<Rightarrow> credentials \<Rightarrow> string \<Rightarrow> outcome" where
  "delete_avatar_route e la rq ident =
     authenticated e la rq (\<lambda>caller.
       if \<not> isAdmin caller \<and> JStr ident \<noteq> claim_id caller
       then respond la [] (message_response 403 ''You can only delete your own avatar'')
       else
         (case deleteUserAvatar (db e) ident of
            Inl err \<Rightarrow>
              respond la [DeleteUserAvatar ident]
                (error_response ''Server error deleting avatar'' err)
          | Inr _ \<Rightarrow>
              respond la [DeleteUserAvatar ident]
                \<lparr>status = 200, body = JObj [(''message'', JStr ''Avatar deleted successfully'')]\<rparr>))"

section \<open>Frontend API client\<close>

text \<open>
  What the transport hands to the client: an HTTP response, or a failure with no response.
\<close>

datatype transport = Answer response | NetworkError string

text \<open>A rejection: \<^verbatim>\<open>error.response\<close> (if any) and \<^verbatim>\<open>error.message\<close>.\<close>

datatype axios_error = AxiosError "response option" string

datatype 'a promise = Resolved 'a | Rejected axios_error

text \<open>\<^verbatim>\<open>validateStatus: (status) => status < 500\<close>.\<close>

definition validateStatus :: "nat \<Rightarrow> bool" where
  "validateStatus st = (st < 500)"

text \<open>
  The client library settles a request with the configured \<^verbatim>\<open>validateStatus\<close>: a
  response whose status it accepts resolves the promise, any other rejects it.
\<close>

definition settle :: "transport \<Rightarrow> response promise" where
  "settle t =
     (case t of
        Answer r \<Rightarrow>
          if validateStatus (status r) then Resolved r
          else Rejected (AxiosError (Some r) ''Request failed'')
      | NetworkError m \<Rightarrow> Rejected (AxiosError None m))"

text \<open>
  The rejection handler of the response interceptor, as its effect on
  \<^verbatim>\<open>window.location\<close>: the path name afterwards. (Console output is not modelled.)
\<close>

definition on_rejected :: "string \<Rightarrow> axios_error \<Rightarrow> string" where
  "on_rejected pathname err =
     (case err of
        AxiosError r m \<Rightarrow>
          if map_option status r = Some 401 \<and> pathname \<noteq> ''/login'' then ''/login''
          else pathname)"

text \<open>
  One request through the client: the fulfilment handler \<^verbatim>\<open>(response) => response\<close>
  passes a resolved response on, the rejection handler runs on a rejected one and rejects
  again. The result is the path name afterwards and the promise the caller awaits.
\<close>

definition api_request :: "string \<Rightarrow> transport \<Rightarrow> string \<times> response promise" where
  "api_request pathname t =
     (case settle t of
        Resolved r \<Rightarrow> (pathname, Resolved r)
      | Rejected err \<Rightarrow> (on_rejected pathname err, Rejected err))"

text \<open>
  \<^verbatim>\<open>error.response?.data?.message || 'Failed to verify PIN'\<close>, the text of the error
  that \<^verbatim>\<open>users.verifyPin\<close> throws.
\<close>

definition verifyPin_failure :: "axios_error \<Rightarrow> jsval" where
  "verifyPin_failure err =
     (case err of
        AxiosError None m \<Rightarrow> JStr ''Failed to verify PIN''
      | AxiosError (Some r) m \<Rightarrow>
          js_or_val (if truthy (body r) then js_get (body r) ''message'' else JUndefined)
            (JStr ''Failed to verify PIN''))"

text \<open>
  \<^verbatim>\<open>users.verifyPin\<close>, given what the transport answers to its \<^verbatim>\<open>POST\<close>: the value the
  promise resolves to, or the text of the error it rejects with. The error thrown for a
  falsy \<^verbatim>\<open>response.data\<close> has no response of its own, so the \<^verbatim>\<open>catch\<close> block
  replaces its text by the default.
\<close>

definition verifyPin :: "string \<Rightarrow> transport \<Rightarrow> jsval + jsval" where
  "verifyPin pathname t =
     (case snd (api_request pathname t) of
        Resolved r \<Rightarrow>
          if \<not> truthy (body r) then Inl (JStr ''Failed to verify PIN'')
          else Inr (js_get (body r) ''valid'')
      | Rejected err \<Rightarrow> Inl (verifyPin_failure err))"

section \<open>Receipt rendering\<close>

text \<open>
  The receipt arithmetic runs on JavaScript numbers. A number is modelled by the rational
  it denotes, and every arithmetic operation rounds its exact result to the nearest number
  with a 53-bit significand, ties to the even significand. The exponent range is not
  bounded in the model; no result leaves the range of normal doubles for canvas dimensions
  below \<open>2^32\<close>, which is what an \<^verbatim>\<open>unsigned long\<close> attribute of a canvas can hold.
\<close>

text \<open>Rounding to the nearest integer, a tie going to the even neighbour.\<close>

definition round_half_even :: "rat \<Rightarrow> int" where
  "round_half_even y =
     (let f = \<lfloor>y\<rfloor>; r = y - of_int f
      in if r < 1 / 2 then f else if 1 / 2 < r then f + 1 else if even f then f else f + 1)"

text \<open>
  The binary exponent of a positive rational \<open>x\<close>: the \<open>e\<close> with
  \<open>2^e \<le> x < 2^(e+1)\<close>, found from the bit lengths of numerator and denominator.
\<close>

definition ilog2 :: "rat \<Rightarrow> int" where
  "ilog2 x =
     (case quotient_of x of
        (p, q) \<Rightarrow> let d = bitlen p - bitlen q in if 2 powi d \<le> x then d else d - 1)"

text \<open>The double nearest to a rational: 53 significant bits at the exponent of \<open>x\<close>.\<close>

definition nearest_double :: "rat \<Rightarrow> rat" where
  "nearest_double x =
     (if x = 0 then 0
      else let u = 2 powi (ilog2 \<bar>x\<bar> - 52)
           in sgn x * of_int (round_half_even (\<bar>x\<bar> / u)) * u)"

text \<open>The operators \<^verbatim>\<open>*\<close>, \<^verbatim>\<open>/\<close> and \<^verbatim>\<open>-\<close> on numbers.\<close>

definition js_mul :: "rat \<Rightarrow> rat \<Rightarrow> rat" where "js_mul a b = nearest_double (a * b)"
definition js_div :: "rat \<Rightarrow> rat \<Rightarrow> rat" where "js_div a b = nearest_double (a / b)"
definition js_sub :: "rat \<Rightarrow> rat \<Rightarrow> rat" where "js_sub a b = nearest_double (a - b)"

text \<open>What the layout reads of the rasterised canvas: its pixel dimensions.\<close>

record canvas =
  width :: nat
  height :: nat

text \<open>
  The arguments \<^verbatim>\<open>x, y, width, height\<close> of one \<^verbatim>\<open>pdf.addImage\<close> call, in millimetres.
\<close>

record placement =
  img_x :: rat
  img_y :: rat
  img_width :: rat
  img_height :: rat

text \<open>
  The document: \<^verbatim>\<open>new jsPDF('p', 'mm', 'a4')\<close> starts with one page, and the images
  placed on it. The receipt code never adds a page.
\<close>

record pdf =
  pages :: nat
  images :: "placement list"

definition imgWidth :: rat where "imgWidth = 210"
definition pageHeight :: rat where "pageHeight = 295"

text \<open>\<^verbatim>\<open>(canvas.height * imgWidth) / canvas.width\<close>.\<close>

definition imgHeight :: "canvas \<Rightarrow> rat" where
  "imgHeight c = js_div (js_mul (of_nat (height c)) imgWidth) (of_nat (width c))"

definition scale :: "canvas \<Rightarrow> rat" where
  "scale c = js_div pageHeight (imgHeight c)"

definition scaledWidth :: "canvas \<Rightarrow> rat" where
  "scaledWidth c = js_mul imgWidth (scale c)"

definition scaledHeight :: "canvas \<Rightarrow> rat" where
  "scaledHeight c = js_mul (imgHeight c) (scale c)"

definition xOffset :: "canvas \<Rightarrow> rat" where
  "xOffset c = js_div (js_sub 210 (scaledWidth c)) 2"

text \<open>The document \<^verbatim>\<open>generatePDFReceipt\<close> saves, for a canvas of positive width.\<close>

definition receipt_pdf :: "canvas \<Rightarrow> pdf" where
  "receipt_pdf c =
     (if imgHeight c \<le> pageHeight
      then \<lparr>pages = 1,
            images = [\<lparr>img_x = 0, img_y = 0, img_width = imgWidth, img_height = imgHeight c\<rparr>]\<rparr>
      else \<lparr>pages = 1,
            images = [\<lparr>img_x = xOffset c, img_y = 0, img_width = scaledWidth c,
                       img_height = scaledHeight c\<rparr>]\<rparr>)"

section \<open>A concrete server for the examples\<close>

text \<open>
  Two users, an active one and an inactive one, and stand-ins for the libraries: a hash
  comparison that accepts the stored hash \<^verbatim>\<open>hash:p\<close> for the secret \<^verbatim>\<open>p\<close>, a signer that
  issues \<^verbatim>\<open>token:name\<close>, a verifier that accepts alice's and the administrator's token
  and reports the token \<^verbatim>\<open>old\<close> as expired, and an email test that looks for an at sign.
\<close>

definition alice :: user where
  "alice =
     \<lparr>u_id = JStr ''u1'', u_username = ''alice'', u_full_name = ''Alice Adams'',
      u_email = ''alice@example.com'', u_password = ''hash:secret1'', u_pin = Some ''hash:1234'',
      u_status = JStr ''Active'', u_is_admin = False, u_avatar = JNull, u_balance = JNum (Finite 10),
      u_phone = JNull, u_created_at = JNull, u_last_login = JNull\<rparr>"

definition bob :: user where
  "bob = alice\<lparr>u_id := JStr ''u2'', u_username := ''bob'', u_full_name := ''Bob Brown'',
                u_email := ''bob@example.com'', u_password := ''hash:secret2'',
                u_status := JStr ''Inactive''\<rparr>"

definition root_claims :: claims where
  "root_claims = \<lparr>claim_id = JStr ''u0'', claim_username = ''admin'', isAdmin = True\<rparr>"

definition alice_claims :: claims where
  "alice_claims = \<lparr>claim_id = JStr ''u1'', claim_username = ''alice'', isAdmin = False\<rparr>"

definition duplicate_key :: js_error where
  "duplicate_key = \<lparr>err_code = JStr ''23505'', err_message = ''duplicate key value''\<rparr>"

definition demo_store :: store where
  "demo_store =
     \<lparr>getSettings = Inr (JObj [(''allowNewUsers'', JBool True)]),
      createUser = (\<lambda>b. if username b = ''alice'' then Inl duplicate_key
                          else Inr (alice\<lparr>u_id := JStr ''u3'', u_username := username b,
                                           u_full_name := full_name b, u_email := email b\<rparr>)),
      getUserById = (\<lambda>i. Inr (if i = ''u1'' then Some alice else if i = ''u2'' then Some bob
                              else None)),
      getUserByUsername = (\<lambda>n. Inr (if n = ''alice'' then Some alice
                                    else if n = ''bob'' then Some bob else None)),
      updateUserLastLogin = (\<lambda>i. Inr ()),
      updateUserBalance = (\<lambda>i b. Inr JNull),
      getUserTransactions = (\<lambda>i. Inr (JArr [])),
      updateUserAvatar = (\<lambda>i f. Inr JNull),
      deleteUserAvatar = (\<lambda>i. Inr ())\<rparr>"

definition demo_env :: env where
  "demo_env =
     \<lparr>db = demo_store,
      bcrypt_compare = (\<lambda>p h. h = ''hash:'' @ p),
      jwt_sign = (\<lambda>c. ''token:'' @ claim_username c),
      jwt_verify = (\<lambda>t. if t = ''token:alice'' then Inr alice_claims
                          else if t = ''token:admin'' then Inr root_claims
                          else if t = ''old'' then Inl ''TokenExpiredError''
                          else Inl ''JsonWebTokenError''),
      isEmail = (\<lambda>s. CHR ''@'' \<in> set s)\<rparr>"

text \<open>The same server with registration switched off.\<close>

definition closed_env :: env where
  "closed_env =
     demo_env\<lparr>db := demo_store\<lparr>getSettings := Inr (JObj [(''allowNewUsers'', JBool False)])\<rparr>\<rparr>"

definition with_cookie :: "string \<Rightarrow> credentials" where
  "with_cookie t = \<lparr>cookie_token = Some t, authorization = None\<rparr>"

text \<open>Two login requests from one address: a wrong password and the right one.\<close>

definition wrong_login :: login_request where
  "wrong_login =
     \<lparr>ip = ''10.0.0.7'', login = \<lparr>login_username = ''alice'', login_password = ''guess''\<rparr>\<rparr>"

definition right_login :: login_request where
  "right_login =
     \<lparr>ip = ''10.0.0.7'', login = \<lparr>login_username = ''alice'', login_password = ''secret1''\<rparr>\<rparr>"

text \<open>Two creation bodies: a new user, and one whose user name is taken.\<close>

definition carol_body :: signup_body where
  "carol_body =
     \<lparr>full_name = ''Carol Codd'', username = ''carol'', email = ''carol@example.com'',
      password = ''secret3''\<rparr>"

definition alice_again :: signup_body where
  "alice_again = carol_body\<lparr>username := ''alice''\<rparr>"

text \<open>The same server after alice's row was deleted: no user is found by identifier.\<close>

definition emptied_env :: env where
  "emptied_env = demo_env\<lparr>db := demo_store\<lparr>getUserById := (\<lambda>i. Inr None)\<rparr>\<rparr>"

text \<open>The error the upload middleware raises for a file over the size limit.\<close>

definition too_large :: js_error where
  "too_large = \<lparr>err_code = JStr ''LIMIT_FILE_SIZE'', err_message = ''File too large''\<rparr>"

text \<open>Login requests naming the inactive user bob, with and without a password.\<close>

definition bob_login :: login_request where
  "bob_login =
     \<lparr>ip = ''10.0.0.9'', login = \<lparr>login_username = ''bob'', login_password = ''secret2''\<rparr>\<rparr>"

definition bob_no_password :: login_request where
  "bob_no_password =
     \<lparr>ip = ''10.0.0.9'', login = \<lparr>login_username = ''bob'', login_password = []\<rparr>\<rparr>"

text \<open>Two canvases: one too tall for the page at full width, one that fits.\<close>

definition tall_canvas :: canvas where
  "tall_canvas = \<lparr>width = 1600, height = 3995\<rparr>"

definition square_canvas :: canvas where
  "square_canvas = \<lparr>width = 1600, height = 1600\<rparr>"

section \<open>Properties of the authentication middleware\<close>

lemma token_cookie: "truthy_str (cookie_token rq) \<Longrightarrow> token rq = cookie_token rq"
  by (simp add: token_def js_or_def)

lemma token_header: "\<not> truthy_str (cookie_token rq) \<Longrightarrow> token rq = headerToken rq"
  by (simp add: token_def js_or_def)

lemma authenticateToken_no_token:
  "\<not> truthy_str (token rq) \<Longrightarrow>
   authenticateToken v rq = Inl (message_response 401 ''Access denied. No token provided.'')"
  by (cases "token rq") (simp_all add: authenticateToken_def)

lemma authenticateToken_verified:
  "token rq = Some t \<Longrightarrow> t \<noteq> [] \<Longrightarrow>
   authenticateToken v rq =
     (case v t of
        Inl n \<Rightarrow> Inl (message_response 403
                  (if n = ''TokenExpiredError'' then expired_message else invalid_message))
      | Inr u \<Rightarrow> Inr u)"
  by (simp add: authenticateToken_def)

lemma messages_differ: "expired_message \<noteq> invalid_message"
  by (simp add: expired_message_def invalid_message_def)

lemma demo_verify [simp]:
  "jwt_verify demo_env ''token:alice'' = Inr alice_claims"
  "jwt_verify demo_env ''token:admin'' = Inr root_claims"
  "jwt_verify demo_env ''old'' = Inl ''TokenExpiredError''"
  "jwt_verify demo_env ''forged'' = Inl ''JsonWebTokenError''"
  by (simp_all add: demo_env_def)

text \<open>
  C2. The middleware takes the credential from the cookie when the cookie holds one (a
  non-empty value), otherwise from the second piece of the \<^verbatim>\<open>Authorization\<close> header. With
  no credential in either place (in particular when both are absent) it answers 401 with
  its message. A credential that fails verification is answered 403, and the body carries
  one message when the verifier reports \<^verbatim>\<open>TokenExpiredError\<close> and another for every other
  error, so that the answer to an expired credential differs from the answer to any other
  invalid one. A credential that verifies hands the decoded claims to the handler chain.
\<close>

theorem authenticateToken_contract:
  "(truthy_str (cookie_token rq) \<longrightarrow> token rq = cookie_token rq) \<and>
   (\<not> truthy_str (cookie_token rq) \<longrightarrow> token rq = headerToken rq) \<and>
   (cookie_token rq = None \<and> authorization rq = None \<longrightarrow>
      authenticateToken v rq =
        Inl \<lparr>status = 401,
             body = JObj [(''message'', JStr ''Access denied. No token provided.'')]\<rparr>) \<and>
   (\<not> truthy_str (token rq) \<longrightarrow>
      authenticateToken v rq =
        Inl \<lparr>status = 401,
             body = JObj [(''message'', JStr ''Access denied. No token provided.'')]\<rparr>) \<and>
   (\<forall>t n. token rq = Some t \<and> t \<noteq> [] \<and> v t = Inl n \<longrightarrow>
      authenticateToken v rq =
        Inl \<lparr>status = 403,
             body = JObj [(''message'',
               JStr (if n = ''TokenExpiredError'' then ''Token expired. Please log in again.''
                     else ''Invalid token.''))]\<rparr>) \<and>
   (\<forall>rq' t t' n. token rq = Some t \<and> t \<noteq> [] \<and> v t = Inl ''TokenExpiredError'' \<and>
      token rq' = Some t' \<and> t' \<noteq> [] \<and> v t' = Inl n \<and> n \<noteq> ''TokenExpiredError'' \<longrightarrow>
      authenticateToken v rq \<noteq> authenticateToken v rq') \<and>
   expired_message \<noteq> invalid_message \<and>
   (\<forall>t u. token rq = Some t \<and> t \<noteq> [] \<and> v t = Inr u \<longrightarrow> authenticateToken v rq = Inr u)"
proof (intro conjI impI allI)
  show "token rq = cookie_token rq" if "truthy_str (cookie_token rq)"
    using that by (rule token_cookie)
  show "token rq = headerToken rq" if "\<not> truthy_str (cookie_token rq)"
    using that by (rule token_header)
  show "authenticateToken v rq =
          Inl \<lparr>status = 401,
               body = JObj [(''message'', JStr ''Access denied. No token provided.'')]\<rparr>"
    if "cookie_token rq = None \<and> authorization rq = None"
  proof -
    from that have "\<not> truthy_str (token rq)"
      by (simp add: token_def js_or_def headerToken_def)
    then show ?thesis
      by (simp add: authenticateToken_no_token message_response_def)
  qed
  show "authenticateToken v rq =
          Inl \<lparr>status = 401,
               body = JObj [(''message'', JStr ''Access denied. No token provided.'')]\<rparr>"
    if "\<not> truthy_str (token rq)"
    using that by (simp add: authenticateToken_no_token message_response_def)
  show "authenticateToken v rq =
          Inl \<lparr>status = 403,
               body = JObj [(''message'',
                 JStr (if n = ''TokenExpiredError'' then ''Token expired. Please log in again.''
                       else ''Invalid token.''))]\<rparr>"
    if "token rq = Some t \<and> t \<noteq> [] \<and> v t = Inl n" for t n
    using that
    by (simp add: authenticateToken_verified message_response_def expired_message_def
          invalid_message_def)
  show "authenticateToken v rq \<noteq> authenticateToken v rq'"
    if "token rq = Some t \<and> t \<noteq> [] \<and> v t = Inl ''TokenExpiredError'' \<and>
        token rq' = Some t' \<and> t' \<noteq> [] \<and> v t' = Inl n \<and> n \<noteq> ''TokenExpiredError''"
    for rq' t t' n
    using that
    by (simp add: authenticateToken_verified message_response_def expired_message_def
          invalid_message_def)
  show "expired_message \<noteq> invalid_message" by (rule messages_differ)
  show "authenticateToken v rq = Inr u" if "token rq = Some t \<and> t \<noteq> [] \<and> v t = Inr u" for t u
    using that by (simp add: authenticateToken_verified)
qed

text \<open>
  The contract at four requests: a cookie that verifies wins over an expired header token;
  an expired header token; a forged header token, answered differently; no credential at
  all.
\<close>

theorem authenticateToken_contract_witness:
  "authenticateToken (jwt_verify demo_env)
     \<lparr>cookie_token = Some ''token:alice'', authorization = Some ''Bearer old''\<rparr> = Inr alice_claims \<and>
   authenticateToken (jwt_verify demo_env)
     \<lparr>cookie_token = None, authorization = Some ''Bearer old''\<rparr> =
       Inl \<lparr>status = 403,
            body = JObj [(''message'', JStr ''Token expired. Please log in again.'')]\<rparr> \<and>
   authenticateToken (jwt_verify demo_env)
     \<lparr>cookie_token = None, authorization = Some ''Bearer forged''\<rparr> =
       Inl \<lparr>status = 403, body = JObj [(''message'', JStr ''Invalid token.'')]\<rparr> \<and>
   authenticateToken (jwt_verify demo_env)
     \<lparr>cookie_token = None, authorization = Some ''Bearer old''\<rparr> \<noteq>
   authenticateToken (jwt_verify demo_env)
     \<lparr>cookie_token = None, authorization = Some ''Bearer forged''\<rparr> \<and>
   authenticateToken (jwt_verify demo_env) \<lparr>cookie_token = None, authorization = None\<rparr> =
     Inl \<lparr>status = 401, body = JObj [(''message'', JStr ''Access denied. No token provided.'')]\<rparr>"
proof -
  let ?v = "jwt_verify demo_env"
  let ?a = "\<lparr>cookie_token = Some ''token:alice'', authorization = Some ''Bearer old''\<rparr>"
  let ?b = "\<lparr>cookie_token = None, authorization = Some ''Bearer old''\<rparr>"
  let ?c = "\<lparr>cookie_token = None, authorization = Some ''Bearer forged''\<rparr>"
  let ?d = "\<lparr>cookie_token = None, authorization = None\<rparr>"
  have ta: "token ?a = Some ''token:alice''"
    using authenticateToken_contract [of ?a ?v] by simp
  have tb: "token ?b = Some ''old''"
    using authenticateToken_contract [of ?b ?v] by (simp add: headerToken_def)
  have tc: "token ?c = Some ''forged''"
    using authenticateToken_contract [of ?c ?v] by (simp add: headerToken_def)
  have ra: "authenticateToken ?v ?a = Inr alice_claims"
    using authenticateToken_contract [of ?a ?v] ta by simp
  have rb: "authenticateToken ?v ?b =
       Inl \<lparr>status = 403,
            body = JObj [(''message'', JStr ''Token expired. Please log in again.'')]\<rparr>"
    using authenticateToken_contract [of ?b ?v] tb by simp
  have rc: "authenticateToken ?v ?c =
       Inl \<lparr>status = 403, body = JObj [(''message'', JStr ''Invalid token.'')]\<rparr>"
    using authenticateToken_contract [of ?c ?v] tc by simp
  have rd: "authenticateToken ?v ?d =
     Inl \<lparr>status = 401, body = JObj [(''message'', JStr ''Access denied. No token provided.'')]\<rparr>"
    using authenticateToken_contract [of ?d ?v] by simp
  have ne: "authenticateToken ?v ?b \<noteq> authenticateToken ?v ?c"
  proof -
    have "token ?b = Some ''old'' \<and> ''old'' \<noteq> [] \<and> ?v ''old'' = Inl ''TokenExpiredError'' \<and>
      token ?c = Some ''forged'' \<and> ''forged'' \<noteq> [] \<and> ?v ''forged'' = Inl ''JsonWebTokenError'' \<and>
      ''JsonWebTokenError'' \<noteq> ''TokenExpiredError''"
      using tb tc by simp
    with authenticateToken_contract [of ?b ?v] show ?thesis by blast
  qed
  from ra rb rc rd ne show ?thesis by simp
qed

text \<open>
  An empty cookie value holds no credential: the header's token is used in its place.
\<close>

lemma empty_cookie_falls_through:
  "authenticateToken (jwt_verify demo_env)
     \<lparr>cookie_token = Some [], authorization = Some ''Bearer token:alice''\<rparr> = Inr alice_claims"
  by (simp add: authenticateToken_def token_def js_or_def headerToken_def)

section \<open>Properties of the login rate limiter\<close>

lemma login_limited:
  "5 \<le> attempts_of la (ip rq) \<Longrightarrow>
   login_route e la rq =
     respond la [] (message_response 429 ''Too many login attempts. Please try again later.'')"
  by (simp add: login_route_def Let_def)

lemma login_401_increments:
  "status (res (login_route e la rq)) = 401 \<Longrightarrow>
   attempts_of (loginAttempts (login_route e la rq)) (ip rq) = attempts_of la (ip rq) + 1"
  by (auto simp: login_route_def Let_def respond_def message_response_def validation_failed_def
        error_response_def attempts_of_def split: prod.splits sum.splits option.splits if_splits)

lemma fst_login_run_Cons:
  "fst (login_run la ((e, rq) # rest)) = fst (login_run (loginAttempts (login_route e la rq)) rest)"
  by (simp add: Let_def case_prod_beta)

lemma snd_login_run_Cons:
  "snd (login_run la ((e, rq) # rest)) =
     res (login_route e la rq) # snd (login_run (loginAttempts (login_route e la rq)) rest)"
  by (simp add: Let_def case_prod_beta)

text \<open>
  A run of requests from one address, each answered 401, raises the count of that address
  by the length of the run.
\<close>

lemma login_run_all_401:
  "\<forall>(e, r) \<in> set reqs. ip r = a \<Longrightarrow>
   \<forall>r \<in> set (snd (login_run la reqs)). status r = 401 \<Longrightarrow>
   attempts_of (fst (login_run la reqs)) a = attempts_of la a + length reqs"
proof (induction reqs arbitrary: la)
  case Nil
  then show ?case by simp
next
  case (Cons x reqs)
  obtain e rq where x: "x = (e, rq)" by (cases x)
  from Cons.prems x have ipa: "ip rq = a" by simp
  from Cons.prems x have st: "status (res (login_route e la rq)) = 401"
    by (simp add: snd_login_run_Cons del: login_run.simps)
  from Cons.prems x
  have rest: "\<forall>r \<in> set (snd (login_run (loginAttempts (login_route e la rq)) reqs)). status r = 401"
    by (simp add: snd_login_run_Cons del: login_run.simps)
  from Cons.prems have ips: "\<forall>(e, r) \<in> set reqs. ip r = a" by simp
  have "attempts_of (fst (login_run (loginAttempts (login_route e la rq)) reqs)) a
        = attempts_of (loginAttempts (login_route e la rq)) a + length reqs"
    using Cons.IH [OF ips rest] .
  also have "attempts_of (loginAttempts (login_route e la rq)) a = attempts_of la a + 1"
    using login_401_increments [OF st] ipa by simp
  finally show ?case using x by (simp add: fst_login_run_Cons del: login_run.simps)
qed

text \<open>The hourly sweep lifts the limit: after it no request is answered 429.\<close>

lemma sweep_lifts_limit: "status (res (login_route e (sweep la) rq)) \<noteq> 429"
  by (auto simp: login_route_def sweep_def attempts_of_def Let_def respond_def
        message_response_def validation_failed_def error_response_def
        split: prod.splits sum.splits option.splits)

text \<open>
  C1. A login request from an address whose stored count is at least 5 is answered 429 and
  makes no call to the store (nor any other call). In particular, after five consecutive
  attempts from one address that each failed the credential check (each answered 401), on
  any starting map and with no sweep in between, the next attempt from that address is
  answered 429 without a call, whatever its credentials.
\<close>

theorem login_rate_limit:
  "(5 \<le> attempts_of la (ip rq) \<longrightarrow>
      status (res (login_route e la rq)) = 429 \<and> calls (login_route e la rq) = []) \<and>
   (length reqs = 5 \<and> (\<forall>(e', r) \<in> set reqs. ip r = ip rq) \<and>
    (\<forall>r \<in> set (snd (login_run la reqs)). status r = 401) \<longrightarrow>
      status (res (login_route e (fst (login_run la reqs)) rq)) = 429 \<and>
      calls (login_route e (fst (login_run la reqs)) rq) = [])"
proof (intro conjI impI)
  assume "5 \<le> attempts_of la (ip rq)"
  then show "status (res (login_route e la rq)) = 429" "calls (login_route e la rq) = []"
    by (simp_all add: login_limited respond_def message_response_def)
next
  assume h: "length reqs = 5 \<and> (\<forall>(e', r) \<in> set reqs. ip r = ip rq) \<and>
    (\<forall>r \<in> set (snd (login_run la reqs)). status r = 401)"
  then have "attempts_of (fst (login_run la reqs)) (ip rq) = attempts_of la (ip rq) + 5"
    using login_run_all_401 [of reqs "ip rq" la] by simp
  then have "5 \<le> attempts_of (fst (login_run la reqs)) (ip rq)" by simp
  then show "status (res (login_route e (fst (login_run la reqs)) rq)) = 429"
    "calls (login_route e (fst (login_run la reqs)) rq) = []"
    by (simp_all add: login_limited respond_def message_response_def)
qed

lemma wrong_login_step:
  "n < 5 \<Longrightarrow> login_route demo_env [''10.0.0.7'' \<mapsto> n] wrong_login =
     respond [''10.0.0.7'' \<mapsto> Suc n]
       [GetUserByUsername ''alice'', BcryptCompare ''guess'' ''hash:secret1'']
       (message_response 401 ''Incorrect password. Please try again.'')"
  by (simp add: login_route_def login_chain_def wrong_login_def trim_def is_space_def check_def
        notEmpty_def demo_env_def demo_store_def alice_def attempts_of_def Let_def)

lemma right_login_ok: "status (res (login_route demo_env Map.empty right_login)) = 200"
  by (simp add: login_route_def login_chain_def right_login_def trim_def is_space_def check_def
        notEmpty_def demo_env_def demo_store_def alice_def attempts_of_def Let_def)

text \<open>
  Five wrong passwords from one address are each answered 401; the right password, accepted
  on a fresh map, is then answered 429 without a call.
\<close>

theorem login_rate_limit_witness:
  "length (replicate 5 (demo_env, wrong_login)) = 5 \<and>
   map (ip \<circ> snd) (replicate 5 (demo_env, wrong_login)) = replicate 5 (ip right_login) \<and>
   map status (snd (login_run [''10.0.0.7'' \<mapsto> 0] (replicate 5 (demo_env, wrong_login)))) =
     replicate 5 401 \<and>
   status (res (login_route demo_env Map.empty right_login)) = 200 \<and>
   status (res (login_route demo_env
     (fst (login_run [''10.0.0.7'' \<mapsto> 0] (replicate 5 (demo_env, wrong_login)))) right_login)) = 429 \<and>
   calls (login_route demo_env
     (fst (login_run [''10.0.0.7'' \<mapsto> 0] (replicate 5 (demo_env, wrong_login)))) right_login) = []"
proof -
  let ?reqs = "replicate 5 (demo_env, wrong_login)"
  let ?la = "[''10.0.0.7'' \<mapsto> (0::nat)]"
  have ips: "map (ip \<circ> snd) ?reqs = replicate 5 (ip right_login)"
    by (simp add: wrong_login_def right_login_def)
  have sts: "map status (snd (login_run ?la ?reqs)) = replicate 5 401"
    by (simp add: numeral_eq_Suc snd_login_run_Cons wrong_login_step respond_def
          message_response_def del: login_run.simps(2))
  have h2: "\<forall>(e', r) \<in> set ?reqs. ip r = ip right_login"
    by (simp add: wrong_login_def right_login_def)
  have h3: "\<forall>r \<in> set (snd (login_run ?la ?reqs)). status r = 401"
  proof
    fix r assume "r \<in> set (snd (login_run ?la ?reqs))"
    then have "status r \<in> set (map status (snd (login_run ?la ?reqs)))" by simp
    then show "status r = 401" unfolding sts by simp
  qed
  show ?thesis
    using login_rate_limit [of ?la right_login demo_env ?reqs] h2 h3 ips sts right_login_ok
    by simp
qed

section \<open>Properties of signup and user creation\<close>

lemma carol_chain_closed: "signup_chain (isEmail closed_env) carol_body = (carol_body, [])"
  by (simp add: signup_chain_def carol_body_def trim_def is_space_def check_def notEmpty_def
        isLength_min_def demo_env_def closed_env_def Let_def)

lemma short_password_chain:
  "snd (signup_chain (isEmail closed_env) (carol_body\<lparr>password := ''abc''\<rparr>)) =
     check False ''password'' ''Password must be at least 6 characters''"
  by (simp add: signup_chain_def carol_body_def trim_def is_space_def check_def notEmpty_def
        isLength_min_def demo_env_def closed_env_def Let_def)

lemma closed_settings:
  "getSettings (db closed_env) = Inr (JObj [(''allowNewUsers'', JBool False)])"
  by (simp add: closed_env_def demo_env_def demo_store_def)

lemma demo_settings: "getSettings (db demo_env) = Inr (JObj [(''allowNewUsers'', JBool True)])"
  by (simp add: demo_env_def demo_store_def)

lemma allowNewUsers_false_truthy: "js_get s ''allowNewUsers'' = JBool False \<Longrightarrow> truthy s"
  by (cases s) simp_all

lemma admin_auth:
  "authenticateToken (jwt_verify demo_env) (with_cookie ''token:admin'') = Inr root_claims"
  by (simp add: authenticateToken_def token_def js_or_def with_cookie_def)

lemma alice_auth:
  "authenticateToken (jwt_verify demo_env) (with_cookie ''token:alice'') = Inr alice_claims"
  by (simp add: authenticateToken_def token_def js_or_def with_cookie_def)

text \<open>
  C4, as stated, fails: with registration switched off, a signup whose password has three
  characters is answered 400 by the validation test, which the handler makes before it
  reads the settings.
\<close>

theorem signup_disabled_invalid_payload:
  "getSettings (db closed_env) = Inr (JObj [(''allowNewUsers'', JBool False)]) \<and>
   status (res (signup closed_env Map.empty (carol_body\<lparr>password := ''abc''\<rparr>))) = 400"
  using short_password_chain
  by (auto simp: closed_settings signup_def check_def respond_def validation_failed_def
        split: prod.splits)

text \<open>
  C4, amended. A signup whose payload passes field validation is answered 403 whenever the
  stored setting \<^verbatim>\<open>allowNewUsers\<close> is \<^verbatim>\<open>false\<close>, and no user is created (the settings
  are the only thing read from the store). A payload that fails field validation is answered
  400 before the settings are read, whatever they hold.
\<close>

theorem signup_registration_gate:
  "(snd (signup_chain (isEmail e) b) = [] \<and> getSettings (db e) = Inr s \<and>
    js_get s ''allowNewUsers'' = JBool False \<longrightarrow>
      res (signup e la b) = message_response 403 ''Registrations are disabled.'' \<and>
      calls (signup e la b) = [GetSettings]) \<and>
   (snd (signup_chain (isEmail e) b) \<noteq> [] \<longrightarrow>
      status (res (signup e la b)) = 400 \<and> calls (signup e la b) = [])"
  by (auto simp: signup_def respond_def validation_failed_def allowNewUsers_false_truthy
        split: prod.splits)

text \<open>Both halves on the server with registration switched off.\<close>

theorem signup_registration_gate_witness:
  "snd (signup_chain (isEmail closed_env) carol_body) = [] \<and>
   getSettings (db closed_env) = Inr (JObj [(''allowNewUsers'', JBool False)]) \<and>
   js_get (JObj [(''allowNewUsers'', JBool False)]) ''allowNewUsers'' = JBool False \<and>
   res (signup closed_env Map.empty carol_body) =
     message_response 403 ''Registrations are disabled.'' \<and>
   calls (signup closed_env Map.empty carol_body) = [GetSettings] \<and>
   snd (signup_chain (isEmail closed_env) (carol_body\<lparr>password := ''abc''\<rparr>)) \<noteq> [] \<and>
   status (res (signup closed_env Map.empty (carol_body\<lparr>password := ''abc''\<rparr>))) = 400"
  using signup_registration_gate
      [of closed_env carol_body "JObj [(''allowNewUsers'', JBool False)]" Map.empty]
    signup_registration_gate
      [of closed_env "carol_body\<lparr>password := ''abc''\<rparr>"
        "JObj [(''allowNewUsers'', JBool False)]" Map.empty]
    short_password_chain
  by (simp add: carol_chain_closed closed_settings check_def)

lemma create_catch_duplicate:
  "err_code err = JStr ''23505'' \<Longrightarrow>
   create_catch err = message_response 400 ''Username or email already exists''"
  by (simp add: create_catch_def)

lemma alice_again_chain: "signup_chain (isEmail demo_env) alice_again = (alice_again, [])"
  by (simp add: signup_chain_def alice_again_def carol_body_def trim_def is_space_def check_def
        notEmpty_def isLength_min_def demo_env_def Let_def)

lemma alice_again_store: "createUser (db demo_env) alice_again = Inl duplicate_key"
  by (simp add: demo_env_def demo_store_def alice_again_def carol_body_def)

text \<open>
  C5. When signup or administrator creation calls \<^verbatim>\<open>createUser\<close> and the store throws an
  error with code \<^verbatim>\<open>23505\<close> (a unique-constraint violation, on the user name or on the
  email), the response has status 400 and a body that holds the one fixed message
  \<^verbatim>\<open>Username or email already exists\<close> and nothing else: the same for every request and
  every such error, so it does not say which field collided, and it is not a 500.
\<close>

theorem duplicate_user_conflict:
  "(createUser (db e) (fst (signup_chain (isEmail e) b)) = Inl err \<and>
    err_code err = JStr ''23505'' \<and>
    CreateUser (fst (signup_chain (isEmail e) b)) \<in> set (calls (signup e la b)) \<longrightarrow>
      res (signup e la b) =
        \<lparr>status = 400, body = JObj [(''message'', JStr ''Username or email already exists'')]\<rparr> \<and>
      res (signup e la b) = message_response 400 ''Username or email already exists'' \<and>
      status (res (signup e la b)) = 400 \<and> status (res (signup e la b)) \<noteq> 500) \<and>
   (createUser (db e) (fst (signup_chain (isEmail e) b)) = Inl err \<and>
    err_code err = JStr ''23505'' \<and>
    CreateUser (fst (signup_chain (isEmail e) b)) \<in> set (calls (create_user_route e la rq b)) \<longrightarrow>
      res (create_user_route e la rq b) =
        \<lparr>status = 400, body = JObj [(''message'', JStr ''Username or email already exists'')]\<rparr> \<and>
      res (create_user_route e la rq b) =
        message_response 400 ''Username or email already exists'' \<and>
      status (res (create_user_route e la rq b)) = 400 \<and>
      status (res (create_user_route e la rq b)) \<noteq> 500)"
  by (auto simp: signup_def create_user_route_def authenticated_def respond_def
        create_catch_duplicate message_response_def
        split: prod.splits sum.splits if_splits)

text \<open>A second user named alice, through signup and through the administrator's route.\<close>

theorem duplicate_user_conflict_witness:
  "createUser (db demo_env) (fst (signup_chain (isEmail demo_env) alice_again)) =
     Inl duplicate_key \<and>
   err_code duplicate_key = JStr ''23505'' \<and>
   calls (signup demo_env Map.empty alice_again) = [GetSettings, CreateUser alice_again] \<and>
   calls (create_user_route demo_env Map.empty (with_cookie ''token:admin'') alice_again) =
     [CreateUser alice_again] \<and>
   res (signup demo_env Map.empty alice_again) =
     \<lparr>status = 400, body = JObj [(''message'', JStr ''Username or email already exists'')]\<rparr> \<and>
   res (create_user_route demo_env Map.empty (with_cookie ''token:admin'') alice_again) =
     \<lparr>status = 400, body = JObj [(''message'', JStr ''Username or email already exists'')]\<rparr>"
proof -
  have c1: "calls (signup demo_env Map.empty alice_again) = [GetSettings, CreateUser alice_again]"
    by (simp add: signup_def alice_again_chain demo_settings alice_again_store respond_def)
  have c2: "calls (create_user_route demo_env Map.empty (with_cookie ''token:admin'') alice_again)
      = [CreateUser alice_again]"
    by (simp add: create_user_route_def alice_again_chain authenticated_def admin_auth
          root_claims_def alice_again_store respond_def)
  show ?thesis
    using duplicate_user_conflict [of demo_env alice_again duplicate_key Map.empty
        "with_cookie ''token:admin''"] c1 c2
    by (simp add: alice_again_chain alice_again_store duplicate_key_def)
qed

section \<open>Properties of the balance update\<close>

text \<open>
  C6, as stated, fails: a caller who is not an administrator and sends the balance -5 is
  answered 403 by the administrator test, which stands before the validation test.
\<close>

theorem negative_balance_non_admin:
  "authenticateToken (jwt_verify demo_env) (with_cookie ''token:alice'') = Inr alice_claims \<and>
   status (res (update_balance_route demo_env Map.empty (with_cookie ''token:alice'') ''u1''
     (Some (Finite (- 5))))) = 403 \<and>
   res (update_balance_route demo_env Map.empty (with_cookie ''token:alice'') ''u1''
     (Some (Finite (- 5)))) =
     \<lparr>status = 403, body = JObj [(''message'', JStr ''Admin access required'')]\<rparr>"
  by (simp add: alice_auth update_balance_route_def authenticated_def alice_claims_def
        respond_def message_response_def)

text \<open>
  C6, amended. An authenticated balance update whose parsed body carries a balance below
  zero (a negative finite number or the negative infinity) is answered 400 with the
  validation failure of the field when the caller is an administrator, and 403 with
  \<^verbatim>\<open>Admin access required\<close> when the caller is not; in neither case is the store called.
\<close>

theorem negative_balance_by_role:
  "authenticateToken (jwt_verify e) rq = Inr caller \<and> below_zero x \<longrightarrow>
     (isAdmin caller \<longrightarrow>
        res (update_balance_route e la rq ident (Some x)) =
          \<lparr>status = 400,
           body = JObj [(''message'', JStr ''Validation failed''),
                        (''errors'', JArr [JObj [(''path'', JStr ''balance''),
                           (''msg'', JStr ''Balance must be a positive number'')]])]\<rparr> \<and>
        calls (update_balance_route e la rq ident (Some x)) = []) \<and>
     (\<not> isAdmin caller \<longrightarrow>
        res (update_balance_route e la rq ident (Some x)) =
          \<lparr>status = 403, body = JObj [(''message'', JStr ''Admin access required'')]\<rparr> \<and>
        calls (update_balance_route e la rq ident (Some x)) = [])"
  by (cases x)
     (simp_all add: update_balance_route_def authenticated_def balance_chain_def check_def
        respond_def validation_failed_def message_response_def)

text \<open>
  The balance -5 and the negative infinity sent by the administrator, and -5 sent by alice.
\<close>

theorem negative_balance_by_role_witness:
  "authenticateToken (jwt_verify demo_env) (with_cookie ''token:admin'') = Inr root_claims \<and>
   authenticateToken (jwt_verify demo_env) (with_cookie ''token:alice'') = Inr alice_claims \<and>
   below_zero (Finite (- 5)) \<and> below_zero NegInfinity \<and>
   isAdmin root_claims \<and> \<not> isAdmin alice_claims \<and>
   status (res (update_balance_route demo_env Map.empty (with_cookie ''token:admin'') ''u1''
     (Some (Finite (- 5))))) = 400 \<and>
   calls (update_balance_route demo_env Map.empty (with_cookie ''token:admin'') ''u1''
     (Some (Finite (- 5)))) = [] \<and>
   status (res (update_balance_route demo_env Map.empty (with_cookie ''token:admin'') ''u1''
     (Some NegInfinity))) = 400 \<and>
   status (res (update_balance_route demo_env Map.empty (with_cookie ''token:alice'') ''u1''
     (Some (Finite (- 5))))) = 403"
  using negative_balance_by_role [of demo_env "with_cookie ''token:admin''" root_claims
      "Finite (- 5)" Map.empty "''u1''"]
    negative_balance_by_role [of demo_env "with_cookie ''token:admin''" root_claims
      NegInfinity Map.empty "''u1''"]
    negative_balance_by_role [of demo_env "with_cookie ''token:alice''" alice_claims
      "Finite (- 5)" Map.empty "''u1''"]
  by (simp add: admin_auth alice_auth root_claims_def alice_claims_def)

text \<open>
  Negative zero is not below zero. It is what a literal such as \<^verbatim>\<open>-1e-400\<close> parses to; it
  passes the validator, and the administrator's update reaches the store.
\<close>

lemma demo_balance_store: "updateUserBalance (db demo_env) i b = Inr JNull"
  by (simp add: demo_env_def demo_store_def)

lemma negative_zero_accepted:
  "res (update_balance_route demo_env Map.empty (with_cookie ''token:admin'') ''u1''
     (Some NegZero)) = \<lparr>status = 200, body = JObj [(''data'', JNull)]\<rparr> \<and>
   calls (update_balance_route demo_env Map.empty (with_cookie ''token:admin'') ''u1''
     (Some NegZero)) = [UpdateUserBalance ''u1'' (Some NegZero)]"
  by (simp add: update_balance_route_def authenticated_def admin_auth root_claims_def
        balance_chain_def check_def respond_def demo_balance_store)

text \<open>The positive infinity, which a literal such as \<^verbatim>\<open>1e400\<close> parses to, is rejected.\<close>

lemma infinity_rejected:
  "status (res (update_balance_route demo_env Map.empty (with_cookie ''token:admin'') ''u1''
     (Some PosInfinity))) = 400"
  by (simp add: update_balance_route_def authenticated_def admin_auth root_claims_def
        balance_chain_def check_def respond_def validation_failed_def)

section \<open>Properties of the self-or-administrator routes\<close>

lemma alice_not_admin: "\<not> isAdmin alice_claims" "claim_id alice_claims = JStr ''u1''"
  by (simp_all add: alice_claims_def)

lemma emptied_env_simps:
  "jwt_verify emptied_env = jwt_verify demo_env"
  "getUserById (db emptied_env) i = Inr None"
  by (simp_all add: emptied_env_def)

text \<open>
  C3, as stated, fails in both halves. Alice, who is not an administrator, asks for her own
  profile after her row was deleted and is answered 404; and her upload to bob's avatar,
  when the file is over the size limit, is answered 500 by the error handler, since the
  upload middleware runs before the ownership test.
\<close>

theorem own_profile_missing_and_upload_error:
  "authenticateToken (jwt_verify emptied_env) (with_cookie ''token:alice'') = Inr alice_claims \<and>
   claim_id alice_claims = JStr ''u1'' \<and>
   status (res (get_user_route emptied_env Map.empty (with_cookie ''token:alice'') ''u1'')) = 404 \<and>
   status (res (update_avatar_route demo_env Map.empty (with_cookie ''token:alice'') ''u2''
     (UploadError too_large))) = 500"
  by (simp add: emptied_env_simps alice_auth alice_not_admin get_user_route_def
        update_avatar_route_def authenticated_def respond_def message_response_def
        error_response_def)

lemma not_upload_error_cases:
  "(\<forall>err. up \<noteq> UploadError err) \<Longrightarrow> up = NoFile \<or> (\<exists>f. up = StoredFile f)"
  by (cases up) simp_all

text \<open>
  C3, amended. For an authenticated caller who is not an administrator: a request that
  targets another identifier is answered 403 on the profile, transactions and avatar-delete
  routes, and on the avatar-upload route when the upload middleware raised no error. A
  request that targets the caller's own identifier is never answered 403 on any of the four
  routes; it is answered 200 when the store call succeeds (for the profile: the user's row
  exists; for the upload: a file was stored), and otherwise 404 (the profile's row is
  missing), 400 (no file was uploaded) or 500 (the store or the upload middleware raised an
  error).
\<close>

theorem self_or_admin_policy:
  "authenticateToken (jwt_verify e) rq = Inr caller \<and> \<not> isAdmin caller \<longrightarrow>
     (JStr ident \<noteq> claim_id caller \<longrightarrow>
        status (res (get_user_route e la rq ident)) = 403 \<and>
        status (res (get_user_transactions_route e la rq ident)) = 403 \<and>
        status (res (delete_avatar_route e la rq ident)) = 403 \<and>
        (\<forall>up. (\<forall>err. up \<noteq> UploadError err) \<longrightarrow>
           status (res (update_avatar_route e la rq ident up)) = 403)) \<and>
     (JStr ident = claim_id caller \<longrightarrow>
        status (res (get_user_route e la rq ident)) \<noteq> 403 \<and>
        status (res (get_user_transactions_route e la rq ident)) \<noteq> 403 \<and>
        status (res (delete_avatar_route e la rq ident)) \<noteq> 403 \<and>
        (\<forall>up. status (res (update_avatar_route e la rq ident up)) \<noteq> 403) \<and>
        (\<forall>u. getUserById (db e) ident = Inr (Some u) \<longrightarrow>
           res (get_user_route e la rq ident) = \<lparr>status = 200, body = profile_user u\<rparr>) \<and>
        (getUserById (db e) ident = Inr None \<longrightarrow>
           res (get_user_route e la rq ident) =
             \<lparr>status = 404, body = JObj [(''message'', JStr ''User not found'')]\<rparr>) \<and>
        (\<forall>err. getUserById (db e) ident = Inl err \<longrightarrow>
           status (res (get_user_route e la rq ident)) = 500) \<and>
        (\<forall>rows. getUserTransactions (db e) ident = Inr rows \<longrightarrow>
           res (get_user_transactions_route e la rq ident) =
             \<lparr>status = 200, body = JObj [(''data'', rows)]\<rparr>) \<and>
        (\<forall>err. getUserTransactions (db e) ident = Inl err \<longrightarrow>
           status (res (get_user_transactions_route e la rq ident)) = 500) \<and>
        (\<forall>f row. updateUserAvatar (db e) ident (''/Uploads/avatars/'' @ f) = Inr row \<longrightarrow>
           status (res (update_avatar_route e la rq ident (StoredFile f))) = 200) \<and>
        (\<forall>f err. updateUserAvatar (db e) ident (''/Uploads/avatars/'' @ f) = Inl err \<longrightarrow>
           status (res (update_avatar_route e la rq ident (StoredFile f))) = 500) \<and>
        res (update_avatar_route e la rq ident NoFile) =
          \<lparr>status = 400, body = JObj [(''message'', JStr ''Avatar file is required'')]\<rparr> \<and>
        (\<forall>err. status (res (update_avatar_route e la rq ident (UploadError err))) = 500) \<and>
        (\<forall>u. deleteUserAvatar (db e) ident = Inr u \<longrightarrow>
           status (res (delete_avatar_route e la rq ident)) = 200) \<and>
        (\<forall>err. deleteUserAvatar (db e) ident = Inl err \<longrightarrow>
           status (res (delete_avatar_route e la rq ident)) = 500))"
proof (intro impI conjI allI)
  assume a: "authenticateToken (jwt_verify e) rq = Inr caller \<and> \<not> isAdmin caller"
  {
    assume other: "JStr ident \<noteq> claim_id caller"
    show "status (res (get_user_route e la rq ident)) = 403"
      using a other
      by (simp add: get_user_route_def authenticated_def respond_def message_response_def)
    show "status (res (get_user_transactions_route e la rq ident)) = 403"
      using a other
      by (simp add: get_user_transactions_route_def authenticated_def respond_def
            message_response_def)
    show "status (res (delete_avatar_route e la rq ident)) = 403"
      using a other
      by (simp add: delete_avatar_route_def authenticated_def respond_def message_response_def)
    show "status (res (update_avatar_route e la rq ident up)) = 403"
      if "\<forall>err. up \<noteq> UploadError err" for up
      using a other not_upload_error_cases [OF that]
      by (auto simp: update_avatar_route_def authenticated_def respond_def message_response_def)
  }
  {
    assume own: "JStr ident = claim_id caller"
    show "status (res (get_user_route e la rq ident)) \<noteq> 403"
      using a own
      by (simp add: get_user_route_def authenticated_def respond_def message_response_def
            error_response_def split: sum.splits option.splits)
    show "status (res (get_user_transactions_route e la rq ident)) \<noteq> 403"
      using a own
      by (simp add: get_user_transactions_route_def authenticated_def respond_def
            error_response_def split: sum.splits)
    show "status (res (delete_avatar_route e la rq ident)) \<noteq> 403"
      using a own
      by (simp add: delete_avatar_route_def authenticated_def respond_def error_response_def
            split: sum.splits)
    show "status (res (update_avatar_route e la rq ident up)) \<noteq> 403" for up
      using a own
      by (simp add: update_avatar_route_def authenticated_def respond_def error_response_def
            message_response_def split: sum.splits upload.splits)
    show "res (get_user_route e la rq ident) = \<lparr>status = 200, body = profile_user u\<rparr>"
      if "getUserById (db e) ident = Inr (Some u)" for u
      using a own that by (simp add: get_user_route_def authenticated_def respond_def)
    show "res (get_user_route e la rq ident) =
            \<lparr>status = 404, body = JObj [(''message'', JStr ''User not found'')]\<rparr>"
      if "getUserById (db e) ident = Inr None"
      using a own that
      by (simp add: get_user_route_def authenticated_def respond_def message_response_def)
    show "status (res (get_user_route e la rq ident)) = 500"
      if "getUserById (db e) ident = Inl err" for err
      using a own that
      by (simp add: get_user_route_def authenticated_def respond_def error_response_def)
    show "res (get_user_transactions_route e la rq ident) =
            \<lparr>status = 200, body = JObj [(''data'', rows)]\<rparr>"
      if "getUserTransactions (db e) ident = Inr rows" for rows
      using a own that
      by (simp add: get_user_transactions_route_def authenticated_def respond_def)
    show "status (res (get_user_transactions_route e la rq ident)) = 500"
      if "getUserTransactions (db e) ident = Inl err" for err
      using a own that
      by (simp add: get_user_transactions_route_def authenticated_def respond_def
            error_response_def)
    show "status (res (update_avatar_route e la rq ident (StoredFile f))) = 200"
      if "updateUserAvatar (db e) ident (''/Uploads/avatars/'' @ f) = Inr row" for f row
      using a own that by (simp add: update_avatar_route_def authenticated_def respond_def)
    show "status (res (update_avatar_route e la rq ident (StoredFile f))) = 500"
      if "updateUserAvatar (db e) ident (''/Uploads/avatars/'' @ f) = Inl err" for f err
      using a own that
      by (simp add: update_avatar_route_def authenticated_def respond_def error_response_def)
    show "res (update_avatar_route e la rq ident NoFile) =
            \<lparr>status = 400, body = JObj [(''message'', JStr ''Avatar file is required'')]\<rparr>"
      using a own
      by (simp add: update_avatar_route_def authenticated_def respond_def message_response_def)
    show "status (res (update_avatar_route e la rq ident (UploadError err))) = 500" for err
      using a
      by (simp add: update_avatar_route_def authenticated_def respond_def error_response_def)
    show "status (res (delete_avatar_route e la rq ident)) = 200"
      if "deleteUserAvatar (db e) ident = Inr u" for u
      using a own that by (simp add: delete_avatar_route_def authenticated_def respond_def)
    show "status (res (delete_avatar_route e la rq ident)) = 500"
      if "deleteUserAvatar (db e) ident = Inl err" for err
      using a own that
      by (simp add: delete_avatar_route_def authenticated_def respond_def error_response_def)
  }
qed

text \<open>
  Alice on bob's resources (403 each) and on her own: 200 each while her row exists, 404 for
  her profile once it is deleted, 400 for an upload without a file and 500 for a file over
  the size limit.
\<close>

theorem self_or_admin_policy_witness:
  "authenticateToken (jwt_verify demo_env) (with_cookie ''token:alice'') = Inr alice_claims \<and>
   \<not> isAdmin alice_claims \<and> JStr ''u2'' \<noteq> claim_id alice_claims \<and>
   JStr ''u1'' = claim_id alice_claims \<and>
   status (res (get_user_route demo_env Map.empty (with_cookie ''token:alice'') ''u2'')) = 403 \<and>
   status (res (get_user_transactions_route demo_env Map.empty (with_cookie ''token:alice'')
     ''u2'')) = 403 \<and>
   status (res (delete_avatar_route demo_env Map.empty (with_cookie ''token:alice'') ''u2'')) = 403 \<and>
   status (res (update_avatar_route demo_env Map.empty (with_cookie ''token:alice'') ''u2''
     (StoredFile ''avatar-u2.png''))) = 403 \<and>
   res (get_user_route demo_env Map.empty (with_cookie ''token:alice'') ''u1'') =
     \<lparr>status = 200, body = profile_user alice\<rparr> \<and>
   res (get_user_transactions_route demo_env Map.empty (with_cookie ''token:alice'') ''u1'') =
     \<lparr>status = 200, body = JObj [(''data'', JArr [])]\<rparr> \<and>
   status (res (update_avatar_route demo_env Map.empty (with_cookie ''token:alice'') ''u1''
     (StoredFile ''avatar-u1.png''))) = 200 \<and>
   status (res (delete_avatar_route demo_env Map.empty (with_cookie ''token:alice'') ''u1'')) = 200 \<and>
   res (get_user_route emptied_env Map.empty (with_cookie ''token:alice'') ''u1'') =
     \<lparr>status = 404, body = JObj [(''message'', JStr ''User not found'')]\<rparr> \<and>
   res (update_avatar_route demo_env Map.empty (with_cookie ''token:alice'') ''u1'' NoFile) =
     \<lparr>status = 400, body = JObj [(''message'', JStr ''Avatar file is required'')]\<rparr> \<and>
   status (res (update_avatar_route demo_env Map.empty (with_cookie ''token:alice'') ''u1''
     (UploadError too_large))) = 500"
proof -
  have s1: "getUserById (db demo_env) ''u1'' = Inr (Some alice)"
    and s2: "getUserTransactions (db demo_env) ''u1'' = Inr (JArr [])"
    and s3: "updateUserAvatar (db demo_env) ''u1'' (''/Uploads/avatars/'' @ ''avatar-u1.png'') = Inr JNull"
    and s4: "deleteUserAvatar (db demo_env) ''u1'' = Inr ()"
    by (simp_all add: demo_env_def demo_store_def)
  have up: "\<forall>err. StoredFile ''avatar-u2.png'' \<noteq> UploadError err" by simp
  have gone: "authenticateToken (jwt_verify emptied_env) (with_cookie ''token:alice'') =
      Inr alice_claims" "getUserById (db emptied_env) ''u1'' = Inr None"
    by (simp_all add: emptied_env_simps alice_auth)
  have missing: "res (get_user_route emptied_env Map.empty (with_cookie ''token:alice'') ''u1'') =
     \<lparr>status = 404, body = JObj [(''message'', JStr ''User not found'')]\<rparr>"
    using self_or_admin_policy [of emptied_env "with_cookie ''token:alice''" alice_claims
        "''u1''" Map.empty] gone
    by (simp add: alice_not_admin)
  show ?thesis
    using self_or_admin_policy [of demo_env "with_cookie ''token:alice''" alice_claims "''u2''"
        Map.empty]
      self_or_admin_policy [of demo_env "with_cookie ''token:alice''" alice_claims "''u1''"
        Map.empty]
      s1 s2 s3 s4 up missing
    by (simp add: alice_auth alice_not_admin)
qed

section \<open>Properties of PIN verification\<close>

lemma alice_row:
  "getUserById (db demo_env) ''u1'' = Inr (Some alice)" "u_pin alice = Some ''hash:1234''"
  "bcrypt_compare demo_env ''1234'' ''hash:1234''"
  by (simp_all add: demo_env_def demo_store_def alice_def)

text \<open>
  C7, as stated, fails. On the server, the empty string is a string, and a request whose
  PIN is the empty string is answered 400 although alice exists and has a PIN hash. On the
  client, the server's answer to the right PIN is the object \<^verbatim>\<open>{data: {valid: true}}\<close>,
  whose own \<^verbatim>\<open>valid\<close> property is missing: \<^verbatim>\<open>users.verifyPin\<close> resolves to
  \<^verbatim>\<open>undefined\<close>, not to the verdict.
\<close>

theorem verify_pin_empty_and_client:
  "status (res (verify_pin_route demo_env Map.empty (with_cookie ''token:alice'') ''u1''
     (JStr []))) = 400 \<and>
   res (verify_pin_route demo_env Map.empty (with_cookie ''token:alice'') ''u1'' (JStr ''1234'')) =
     \<lparr>status = 200, body = JObj [(''data'', JObj [(''valid'', JBool True)])]\<rparr> \<and>
   verifyPin ''/dashboard''
     (Answer (res (verify_pin_route demo_env Map.empty (with_cookie ''token:alice'') ''u1''
        (JStr ''1234'')))) = Inr JUndefined"
  by (simp add: verify_pin_route_def authenticated_def alice_auth alice_row respond_def
        message_response_def verifyPin_def api_request_def settle_def validateStatus_def)

text \<open>
  C7, amended. For an authenticated request whose PIN is a non-empty string, when the target
  user exists and has a non-empty stored PIN hash, the server answers 200 with
  \<^verbatim>\<open>{data: {valid: b}}\<close>, where \<open>b\<close> is the result of the hash comparison of the PIN
  against the stored hash, and the login-attempt map is left as it was.
\<close>

theorem verify_pin_verdict:
  "authenticateToken (jwt_verify e) rq = Inr caller \<and> p \<noteq> [] \<and>
   getUserById (db e) userId = Inr (Some usr) \<and> u_pin usr = Some h \<and> h \<noteq> [] \<longrightarrow>
     res (verify_pin_route e la rq userId (JStr p)) =
       \<lparr>status = 200,
        body = JObj [(''data'', JObj [(''valid'', JBool (bcrypt_compare e p h))])]\<rparr> \<and>
     loginAttempts (verify_pin_route e la rq userId (JStr p)) = la"
  by (simp add: verify_pin_route_def authenticated_def respond_def)

text \<open>Alice's PIN, right and wrong, with two failed logins on record.\<close>

theorem verify_pin_verdict_witness:
  "authenticateToken (jwt_verify demo_env) (with_cookie ''token:alice'') = Inr alice_claims \<and>
   getUserById (db demo_env) ''u1'' = Inr (Some alice) \<and> u_pin alice = Some ''hash:1234'' \<and>
   res (verify_pin_route demo_env [''10.0.0.7'' \<mapsto> 2] (with_cookie ''token:alice'') ''u1''
     (JStr ''1234'')) =
     \<lparr>status = 200, body = JObj [(''data'', JObj [(''valid'', JBool True)])]\<rparr> \<and>
   res (verify_pin_route demo_env [''10.0.0.7'' \<mapsto> 2] (with_cookie ''token:alice'') ''u1''
     (JStr ''0000'')) =
     \<lparr>status = 200, body = JObj [(''data'', JObj [(''valid'', JBool False)])]\<rparr> \<and>
   loginAttempts (verify_pin_route demo_env [''10.0.0.7'' \<mapsto> 2] (with_cookie ''token:alice'')
     ''u1'' (JStr ''0000'')) = [''10.0.0.7'' \<mapsto> 2]"
proof -
  have cmp: "bcrypt_compare demo_env ''1234'' ''hash:1234''"
    "\<not> bcrypt_compare demo_env ''0000'' ''hash:1234''"
    by (simp_all add: demo_env_def)
  show ?thesis
    using verify_pin_verdict [of demo_env "with_cookie ''token:alice''" alice_claims "''1234''"
        "''u1''" alice "''hash:1234''" "[''10.0.0.7'' \<mapsto> 2]"]
      verify_pin_verdict [of demo_env "with_cookie ''token:alice''" alice_claims "''0000''"
        "''u1''" alice "''hash:1234''" "[''10.0.0.7'' \<mapsto> 2]"] cmp
    by (simp add: alice_auth alice_row)
qed

section \<open>Properties of the frontend client\<close>

text \<open>
  A response the client library accepts never reaches the rejection handler: the path name
  stays and the promise resolves. Every status below 500 is accepted, 401 among them.
\<close>

lemma accepted_response_resolves:
  "status r < 500 \<Longrightarrow> api_request pathname (Answer r) = (pathname, Resolved r)"
  by (simp add: api_request_def settle_def validateStatus_def)

text \<open>
  C8 does not hold of the code: a 401 response received at \<^verbatim>\<open>/dashboard\<close> resolves the
  promise and leaves the location where it was. The redirect in the rejection handler is
  reached only by a rejection that carries a 401 response, which \<^verbatim>\<open>validateStatus\<close>
  never produces.
\<close>

theorem unauthorized_response_no_redirect:
  "api_request ''/dashboard''
     (Answer (message_response 401 ''Access denied. No token provided.'')) =
     (''/dashboard'', Resolved (message_response 401 ''Access denied. No token provided.''))"
  by (simp add: accepted_response_resolves message_response_def)

text \<open>The handler does redirect when it is given a rejection with a 401 response.\<close>

lemma on_rejected_redirects:
  "status r = 401 \<Longrightarrow> pathname \<noteq> ''/login'' \<Longrightarrow>
   on_rejected pathname (AxiosError (Some r) m) = ''/login''"
  by (simp add: on_rejected_def)

section \<open>Properties of the login handler's inactive branch\<close>

lemma bob_row:
  "getUserByUsername (db demo_env) ''bob'' = Inr (Some bob)" "u_status bob = JStr ''Inactive''"
  by (simp_all add: demo_env_def demo_store_def bob_def alice_def)

lemma bob_login_chain: "login_chain (login bob_login) = (login bob_login, [])"
  by (simp add: login_chain_def bob_login_def trim_def is_space_def check_def notEmpty_def
        Let_def)

text \<open>
  C10, as stated, fails: a login request that names the inactive user bob and carries no
  password, from an address under the limit, is answered 400 by the validation test, before
  the user is looked up.
\<close>

theorem inactive_login_without_password:
  "attempts_of Map.empty (ip bob_no_password) < 5 \<and>
   login_username (login bob_no_password) = ''bob'' \<and>
   getUserByUsername (db demo_env) ''bob'' = Inr (Some bob) \<and>
   u_status bob = JStr ''Inactive'' \<and>
   status (res (login_route demo_env Map.empty bob_no_password)) = 400"
  by (simp add: bob_row attempts_of_def login_route_def login_chain_def bob_no_password_def
        trim_def is_space_def check_def notEmpty_def respond_def validation_failed_def Let_def)

text \<open>
  C10, amended. For a login request from an address under the limit whose body passes
  validation and whose (trimmed) user name the store resolves to a user whose status is not
  \<^verbatim>\<open>Active\<close>: the answer is 403, the only call made is the lookup (so no password is
  compared and no token is signed), no cookie is set, and the login-attempt map is left as
  it was.
\<close>

theorem inactive_login_frame:
  "attempts_of la (ip rq) < 5 \<and> login_chain (login rq) = (b, []) \<and>
   getUserByUsername (db e) (login_username b) = Inr (Some u) \<and>
   u_status u \<noteq> JStr ''Active'' \<longrightarrow>
     res (login_route e la rq) =
       message_response 403 ''Your account is inactive. Please contact support.'' \<and>
     calls (login_route e la rq) = [GetUserByUsername (login_username b)] \<and>
     loginAttempts (login_route e la rq) = la \<and>
     cookie (login_route e la rq) = None"
  by (simp add: login_route_def Let_def respond_def)

text \<open>Bob's login with his right password, with four failures on record for his address.\<close>

theorem inactive_login_frame_witness:
  "attempts_of [''10.0.0.9'' \<mapsto> 4] (ip bob_login) < 5 \<and>
   login_chain (login bob_login) = (login bob_login, []) \<and>
   getUserByUsername (db demo_env) (login_username (login bob_login)) = Inr (Some bob) \<and>
   u_status bob \<noteq> JStr ''Active'' \<and>
   status (res (login_route demo_env [''10.0.0.9'' \<mapsto> 4] bob_login)) = 403 \<and>
   calls (login_route demo_env [''10.0.0.9'' \<mapsto> 4] bob_login) = [GetUserByUsername ''bob''] \<and>
   loginAttempts (login_route demo_env [''10.0.0.9'' \<mapsto> 4] bob_login) = [''10.0.0.9'' \<mapsto> 4] \<and>
   cookie (login_route demo_env [''10.0.0.9'' \<mapsto> 4] bob_login) = None"
proof -
  have n: "login_username (login bob_login) = ''bob''" "ip bob_login = ''10.0.0.9''"
    by (simp_all add: bob_login_def)
  show ?thesis
    using inactive_login_frame [of "[''10.0.0.9'' \<mapsto> 4]" bob_login "login bob_login" demo_env bob]
    by (simp add: bob_login_chain bob_row n attempts_of_def message_response_def)
qed


section \<open>Properties of the rounding\<close>

lemma int_pow2_bounds:
  fixes p :: int
  assumes "0 < p"
  shows "(2::rat) powi (bitlen p - 1) \<le> of_int p" "of_int p < (2::rat) powi (bitlen p)"
proof -
  from assms have b1: "1 \<le> bitlen p" by (auto simp: bitlen_alt_def)
  from bitlen_bounds [OF assms]
  have lo: "2 ^ nat (bitlen p - 1) \<le> p" and hi: "p < 2 ^ nat (bitlen p)" by simp_all
  have "(2::rat) powi (bitlen p - 1) = of_int (2 ^ nat (bitlen p - 1))"
    using b1 by (simp add: power_int_def)
  also have "\<dots> \<le> of_int p" using lo by (simp only: of_int_le_iff)
  finally show "(2::rat) powi (bitlen p - 1) \<le> of_int p" .
  have "(of_int p :: rat) < of_int (2 ^ nat (bitlen p))" using hi by (simp only: of_int_less_iff)
  also have "\<dots> = (2::rat) powi (bitlen p)" using b1 by (simp add: power_int_def)
  finally show "of_int p < (2::rat) powi (bitlen p)" .
qed


lemma ilog2_bounds:
  assumes "0 < x"
  shows "2 powi (ilog2 x) \<le> x \<and> x < 2 powi (ilog2 x + 1)"
proof -
  obtain p q where pq: "quotient_of x = (p, q)" by (cases "quotient_of x")
  then have q: "0 < q" and x: "x = of_int p / of_int q"
    by (simp_all add: quotient_of_denom_pos quotient_of_div)
  from assms x q have p: "0 < p" by (simp add: zero_less_divide_iff)
  let ?a = "bitlen p" and ?b = "bitlen q"
  note pb = int_pow2_bounds [OF p] and qb = int_pow2_bounds [OF q]
  have qpos: "(0::rat) < of_int q" using q by simp
  have up: "x < 2 powi (?a - ?b + 1)"
  proof -
    have "x < 2 powi ?a / of_int q" unfolding x using pb(2) qpos by (simp add: divide_strict_right_mono)
    also have "\<dots> \<le> 2 powi ?a / 2 powi (?b - 1)"
      using qb(1) qpos by (intro divide_left_mono mult_pos_pos) simp_all
    also have "\<dots> = 2 powi (?a - ?b + 1)"
      by (simp add: power_int_diff [symmetric] algebra_simps)
    finally show ?thesis .
  qed
  have lo: "2 powi (?a - ?b - 1) \<le> x"
  proof -
    have "(2::rat) powi (?a - ?b - 1) = 2 powi (?a - 1) / 2 powi ?b"
      by (simp add: power_int_diff [symmetric] algebra_simps)
    also have "\<dots> \<le> 2 powi (?a - 1) / of_int q"
      using qb(2) qpos by (intro divide_left_mono mult_pos_pos) simp_all
    also have "\<dots> \<le> x" unfolding x using pb(1) qpos by (simp add: divide_right_mono)
    finally show ?thesis .
  qed
  show ?thesis
    using up lo pq by (auto simp: ilog2_def Let_def not_le)
qed

lemma pow2_exponent_unique:
  fixes x :: rat
  assumes "2 powi e \<le> x" "x < 2 powi (e + 1)" "2 powi e' \<le> x" "x < 2 powi (e' + 1)"
  shows "e = e'"
proof (rule ccontr)
  assume "e \<noteq> e'"
  then consider "e + 1 \<le> e'" | "e' + 1 \<le> e" by linarith
  then show False
  proof cases
    case 1
    then have "(2::rat) powi (e + 1) \<le> 2 powi e'" by (intro power_int_increasing) simp_all
    with assms show False by linarith
  next
    case 2
    then have "(2::rat) powi (e' + 1) \<le> 2 powi e" by (intro power_int_increasing) simp_all
    with assms show False by linarith
  qed
qed

lemma ilog2_eq:
  "2 powi e \<le> x \<Longrightarrow> x < 2 powi (e + 1) \<Longrightarrow> ilog2 x = e"
proof -
  assume a: "2 powi e \<le> x" "x < 2 powi (e + 1)"
  have "(0::rat) < 2 powi e" by simp
  with a have "0 < x" by linarith
  from ilog2_bounds [OF this] a show ?thesis
    by (auto intro: pow2_exponent_unique)
qed

lemma round_half_even_eq:
  "of_int n \<le> y \<Longrightarrow> y < of_int n + 1 \<Longrightarrow>
   round_half_even y =
     (if y - of_int n < 1 / 2 then n else if 1 / 2 < y - of_int n then n + 1
      else if even n then n else n + 1)"
proof -
  assume "of_int n \<le> y" "y < of_int n + 1"
  then have "\<lfloor>y\<rfloor> = n" by (simp add: floor_unique)
  then show ?thesis by (simp add: round_half_even_def Let_def)
qed

lemma round_half_even_error: "\<bar>of_int (round_half_even y) - y\<bar> \<le> 1 / 2"
proof -
  have "of_int \<lfloor>y\<rfloor> \<le> y" "y < of_int \<lfloor>y\<rfloor> + 1" by linarith+
  then show ?thesis
    by (auto simp: round_half_even_def Let_def abs_le_iff)
qed

lemma nearest_double_eval:
  assumes "2 powi e \<le> x" "x < 2 powi (e + 1)"
  shows "nearest_double x = of_int (round_half_even (x / 2 powi (e - 52))) * 2 powi (e - 52)"
proof -
  have "(0::rat) < 2 powi e" by simp
  with assms have "0 < x" by linarith
  then show ?thesis
    by (simp add: nearest_double_def ilog2_eq [OF assms] Let_def)
qed

lemma nearest_double_error:
  assumes "0 < x"
  shows "\<bar>nearest_double x - x\<bar> \<le> x / 2 ^ 53"
proof -
  let ?e = "ilog2 x"
  let ?u = "(2::rat) powi (?e - 52)"
  have u: "0 < ?u" by simp
  from ilog2_bounds [OF assms] have lo: "2 powi ?e \<le> x" by simp
  have d: "nearest_double x = of_int (round_half_even (x / ?u)) * ?u"
    using assms by (simp add: nearest_double_def Let_def)
  have "\<bar>nearest_double x - x\<bar> = \<bar>of_int (round_half_even (x / ?u)) - x / ?u\<bar> * ?u"
  proof -
    have "nearest_double x - x = (of_int (round_half_even (x / ?u)) - x / ?u) * ?u"
      using u by (simp add: d algebra_simps)
    then show ?thesis using u by (simp add: abs_mult)
  qed
  also have "\<dots> \<le> (1 / 2) * ?u"
    using round_half_even_error [of "x / ?u"] u by (intro mult_right_mono) simp_all
  also have "\<dots> = 2 powi ?e / 2 ^ 53"
  proof -
    have "?u = 2 powi ?e / 2 powi 52" by (simp add: power_int_diff)
    then show ?thesis by simp
  qed
  also have "\<dots> \<le> x / 2 ^ 53" using lo by (simp add: divide_right_mono)
  finally show ?thesis .
qed


section \<open>Properties of the receipt layout\<close>

lemma tall_imgHeight: "imgHeight tall_canvas = 16779 / 32"
proof -
  have a: "nearest_double 838950 = 838950"
    by (subst nearest_double_eval [where e = 19]) (simp_all add: round_half_even_def)
  have b: "nearest_double (16779 / 32) = 16779 / 32"
    by (subst nearest_double_eval [where e = 9]) (simp_all add: round_half_even_def)
  show ?thesis
    by (simp add: imgHeight_def js_div_def js_mul_def tall_canvas_def imgWidth_def a b)
qed

lemma tall_scale: "scale tall_canvas = 5067522555858809 / 2 ^ 53"
proof -
  have "nearest_double (9440 / 16779) = 5067522555858809 / 2 ^ 53"
    by (subst nearest_double_eval [where e = "- 1"])
       (simp_all add: round_half_even_eq [where n = 5067522555858809] power_int_minus)
  then show ?thesis
    by (simp add: scale_def js_div_def tall_imgHeight pageHeight_def)
qed

lemma tall_scaledHeight: "scaledHeight tall_canvas = 295 - 1 / 2 ^ 44"
proof -
  have "nearest_double (16779 / 32 * (5067522555858809 / 2 ^ 53)) = 5189694883102719 / 2 ^ 44"
    by (subst nearest_double_eval [where e = 8])
       (simp_all add: round_half_even_eq [where n = 5189694883102719] power_int_minus)
  then show ?thesis
    by (simp add: scaledHeight_def js_mul_def tall_imgHeight tall_scale)
qed


lemma tall_scaledWidth: "scaledWidth tall_canvas = 8313904193205859 / 2 ^ 46"
proof -
  have "nearest_double (210 * (5067522555858809 / 2 ^ 53)) = 8313904193205859 / 2 ^ 46"
    by (subst nearest_double_eval [where e = 6])
       (simp_all add: round_half_even_eq [where n = 8313904193205858] power_int_minus)
  then show ?thesis
    by (simp add: scaledWidth_def js_mul_def imgWidth_def tall_scale)
qed

lemma tall_xOffset: "xOffset tall_canvas = 6463532084103581 / 2 ^ 47"
proof -
  have a: "nearest_double (210 - 8313904193205859 / 2 ^ 46) = 6463532084103581 / 2 ^ 46"
    by (subst nearest_double_eval [where e = 6])
       (simp_all add: round_half_even_eq [where n = 6463532084103581] power_int_minus)
  have b: "nearest_double (6463532084103581 / 2 ^ 46 / 2) = 6463532084103581 / 2 ^ 47"
    by (subst nearest_double_eval [where e = 5])
       (simp_all add: round_half_even_eq [where n = 6463532084103581] power_int_minus)
  show ?thesis
    by (simp only: xOffset_def js_div_def js_sub_def tall_scaledWidth a b)
qed

lemma square_imgHeight: "imgHeight square_canvas = 210"
proof -
  have a: "nearest_double 336000 = 336000"
    by (subst nearest_double_eval [where e = 18]) (simp_all add: round_half_even_def)
  have b: "nearest_double 210 = 210"
    by (subst nearest_double_eval [where e = 7]) (simp_all add: round_half_even_def)
  show ?thesis
    by (simp add: imgHeight_def js_div_def js_mul_def square_canvas_def imgWidth_def a b)
qed

text \<open>
  C9, as stated, fails in one word: the scaled height is not always exactly the page
  height. For a canvas of 1600 by 3995 pixels the height at full width is 524.34375, the
  factor \<^verbatim>\<open>295 / 524.34375\<close> rounds to \<open>5067522555858809 / 2^53\<close>, and the product of the
  two rounds to \<open>295 - 2^-44\<close> (printed as 294.99999999999994), which is the height the image
  is placed with.
\<close>

theorem scaled_height_inexact:
  "imgHeight tall_canvas = 16779 / 32 \<and> pageHeight < imgHeight tall_canvas \<and>
   images (receipt_pdf tall_canvas) =
     [\<lparr>img_x = 6463532084103581 / 2 ^ 47, img_y = 0, img_width = 8313904193205859 / 2 ^ 46,
       img_height = 295 - 1 / 2 ^ 44\<rparr>] \<and>
   295 - 1 / 2 ^ 44 \<noteq> pageHeight"
  by (simp add: receipt_pdf_def tall_imgHeight tall_xOffset tall_scaledWidth tall_scaledHeight
        pageHeight_def)

text \<open>
  Two roundings separate the scaled height from the page height, each of relative size at
  most \<open>2^-53\<close>.
\<close>

lemma scaledHeight_error:
  assumes "pageHeight < imgHeight c"
  shows "\<bar>scaledHeight c - pageHeight\<bar> \<le> pageHeight / 2 ^ 51"
proof -
  define ih where "ih = imgHeight c"
  define t where "t = 295 / ih"
  define s where "s = nearest_double t"
  define p where "p = ih * s"
  from assms have ih: "295 < ih" by (simp add: ih_def pageHeight_def)
  then have ihpos: "0 < ih" by simp
  then have tpos: "0 < t" by (simp add: t_def)
  have iht: "ih * t = 295" using ihpos by (simp add: t_def)
  have st: "\<bar>s - t\<bar> \<le> t / 2 ^ 53" unfolding s_def by (rule nearest_double_error [OF tpos])
  have "t / 2 ^ 53 < t" using tpos by (simp add: divide_less_eq)
  with st tpos have spos: "0 < s" by linarith
  then have ppos: "0 < p" using ihpos by (simp add: p_def)
  have "p - 295 = ih * (s - t)" by (simp add: p_def iht algebra_simps)
  then have "\<bar>p - 295\<bar> = ih * \<bar>s - t\<bar>" using ihpos by (simp add: abs_mult)
  also have "\<dots> \<le> ih * (t / 2 ^ 53)" using st ihpos by (simp add: mult_left_mono)
  also have "\<dots> = 295 / 2 ^ 53" using iht by simp
  finally have e1: "\<bar>p - 295\<bar> \<le> 295 / 2 ^ 53" .
  have e2: "\<bar>nearest_double p - p\<bar> \<le> p / 2 ^ 53" by (rule nearest_double_error [OF ppos])
  from e1 have "p \<le> 295 + 295 / 2 ^ 53" by linarith
  then have "p / 2 ^ 53 \<le> (295 + 295 / 2 ^ 53) / 2 ^ 53" by (simp add: divide_right_mono)
  with e2 have e3: "\<bar>nearest_double p - p\<bar> \<le> (295 + 295 / 2 ^ 53) / 2 ^ 53" by linarith
  have "(295 / 2 ^ 53 + (295 + 295 / 2 ^ 53) / 2 ^ 53 :: rat) \<le> 295 / 2 ^ 51" by simp
  with e1 e3 have "\<bar>nearest_double p - 295\<bar> \<le> 295 / 2 ^ 51" by linarith
  moreover have "scaledHeight c = nearest_double p"
    by (simp add: scaledHeight_def js_mul_def scale_def js_div_def p_def s_def t_def ih_def
          pageHeight_def)
  ultimately show ?thesis by (simp add: pageHeight_def)
qed

text \<open>
  C9, amended. For a canvas of positive width (and dimensions below \<open>2^32\<close>) the document
  has a single page with one image on it. When the height at full page width,
  \<^verbatim>\<open>canvas.height * 210 / canvas.width\<close>, is at most the page height 295, the image is
  placed at the origin with width 210 and that height. When it exceeds the page height, the
  image is scaled in both directions by the one factor \<^verbatim>\<open>pageHeight / imgHeight\<close>, placed
  at \<^verbatim>\<open>xOffset = (210 - scaledWidth) / 2\<close> and \<open>y = 0\<close>, and its scaled height equals the
  page height up to rounding: the two differ by at most \<open>295 / 2^51\<close>.
\<close>

theorem receipt_layout:
  "0 < width c \<and> width c < 2 ^ 32 \<and> height c < 2 ^ 32 \<longrightarrow>
     pages (receipt_pdf c) = 1 \<and>
     (imgHeight c \<le> pageHeight \<longrightarrow>
        images (receipt_pdf c) =
          [\<lparr>img_x = 0, img_y = 0, img_width = 210, img_height = imgHeight c\<rparr>]) \<and>
     (pageHeight < imgHeight c \<longrightarrow>
        images (receipt_pdf c) =
          [\<lparr>img_x = js_div (js_sub 210 (scaledWidth c)) 2, img_y = 0,
            img_width = scaledWidth c, img_height = scaledHeight c\<rparr>] \<and>
        scaledWidth c = js_mul 210 (js_div pageHeight (imgHeight c)) \<and>
        scaledHeight c = js_mul (imgHeight c) (js_div pageHeight (imgHeight c)) \<and>
        \<bar>scaledHeight c - pageHeight\<bar> \<le> pageHeight / 2 ^ 51)"
proof (intro impI conjI)
  show "pages (receipt_pdf c) = 1" by (simp add: receipt_pdf_def)
  show "images (receipt_pdf c) =
          [\<lparr>img_x = 0, img_y = 0, img_width = 210, img_height = imgHeight c\<rparr>]"
    if "imgHeight c \<le> pageHeight"
    using that by (simp add: receipt_pdf_def imgWidth_def)
  show "images (receipt_pdf c) =
          [\<lparr>img_x = js_div (js_sub 210 (scaledWidth c)) 2, img_y = 0,
            img_width = scaledWidth c, img_height = scaledHeight c\<rparr>]"
    if "pageHeight < imgHeight c"
    using that by (simp add: receipt_pdf_def xOffset_def)
  show "scaledWidth c = js_mul 210 (js_div pageHeight (imgHeight c))"
    by (simp add: scaledWidth_def scale_def imgWidth_def)
  show "scaledHeight c = js_mul (imgHeight c) (js_div pageHeight (imgHeight c))"
    by (simp add: scaledHeight_def scale_def)
  show "\<bar>scaledHeight c - pageHeight\<bar> \<le> pageHeight / 2 ^ 51" if "pageHeight < imgHeight c"
    using that by (rule scaledHeight_error)
qed

text \<open>A square canvas, which fits, and the tall canvas, which is scaled down.\<close>

theorem receipt_layout_witness:
  "0 < width square_canvas \<and> width square_canvas < 2 ^ 32 \<and> height square_canvas < 2 ^ 32 \<and>
   imgHeight square_canvas \<le> pageHeight \<and>
   receipt_pdf square_canvas =
     \<lparr>pages = 1, images = [\<lparr>img_x = 0, img_y = 0, img_width = 210, img_height = 210\<rparr>]\<rparr> \<and>
   0 < width tall_canvas \<and> width tall_canvas < 2 ^ 32 \<and> height tall_canvas < 2 ^ 32 \<and>
   pageHeight < imgHeight tall_canvas \<and>
   pages (receipt_pdf tall_canvas) = 1 \<and>
   map img_height (images (receipt_pdf tall_canvas)) = [295 - 1 / 2 ^ 44] \<and>
   \<bar>scaledHeight tall_canvas - pageHeight\<bar> \<le> pageHeight / 2 ^ 51"
proof -
  have sq: "receipt_pdf square_canvas =
     \<lparr>pages = pages (receipt_pdf square_canvas), images = images (receipt_pdf square_canvas)\<rparr>"
    by simp
  have w: "0 < width square_canvas" "0 < width tall_canvas"
    "width square_canvas < 2 ^ 32" "height square_canvas < 2 ^ 32"
    "width tall_canvas < 2 ^ 32" "height tall_canvas < 2 ^ 32"
    by (simp_all add: square_canvas_def tall_canvas_def)
  have h: "imgHeight square_canvas \<le> pageHeight" "pageHeight < imgHeight tall_canvas"
    by (simp_all add: square_imgHeight tall_imgHeight pageHeight_def)
  from receipt_layout [of square_canvas] w h
  have "pages (receipt_pdf square_canvas) = 1"
    "images (receipt_pdf square_canvas) =
       [\<lparr>img_x = 0, img_y = 0, img_width = 210, img_height = 210\<rparr>]"
    by (simp_all add: square_imgHeight)
  with sq have sq': "receipt_pdf square_canvas =
     \<lparr>pages = 1, images = [\<lparr>img_x = 0, img_y = 0, img_width = 210, img_height = 210\<rparr>]\<rparr>"
    by simp
  from receipt_layout [of tall_canvas] w h
  have "pages (receipt_pdf tall_canvas) = 1"
    "map img_height (images (receipt_pdf tall_canvas)) = [295 - 1 / 2 ^ 44]"
    "\<bar>scaledHeight tall_canvas - pageHeight\<bar> \<le> pageHeight / 2 ^ 51"
    by (simp_all add: tall_scaledHeight)
  with sq' w h show ?thesis by simp
qed

end
